theory Spec2Isabelle
  imports Complex_Main "HOL-Library.Char_ord"
begin

section \<open>JavaScript numbers\<close>

text \<open>
  Every value of the scripting language is a JavaScript number. A finite number is
  modelled by the real it denotes; the two infinities and NaN are values of their own,
  because the code can produce them (\<open>x % 0\<close>, \<open>parseFloat\<close> of a word,
  \<open>Math.sqrt\<close> of a negative number) and its comparisons, \<open>Math.min\<close>,
  \<open>Math.max\<close> and \<open>||\<close> treat them specially. Rounding, overflow of finite
  arithmetic and the sign of zero are not modelled.
\<close>

datatype jsnum = Fin real | PInf | NInf | NaN

definition zero :: jsnum where "zero = Fin 0"
definition one :: jsnum where "one = Fin 1"

fun jneg :: "jsnum \<Rightarrow> jsnum" where
  "jneg (Fin a) = Fin (- a)"
| "jneg PInf = NInf"
| "jneg NInf = PInf"
| "jneg NaN = NaN"

fun jadd :: "jsnum \<Rightarrow> jsnum \<Rightarrow> jsnum" where
  "jadd (Fin a) (Fin b) = Fin (a + b)"
| "jadd NaN _ = NaN"
| "jadd _ NaN = NaN"
| "jadd PInf NInf = NaN"
| "jadd NInf PInf = NaN"
| "jadd PInf _ = PInf"
| "jadd _ PInf = PInf"
| "jadd NInf _ = NInf"
| "jadd _ NInf = NInf"

definition jsub :: "jsnum \<Rightarrow> jsnum \<Rightarrow> jsnum" where
  "jsub a b = jadd a (jneg b)"

text \<open>The sign of a non-NaN number, for products and quotients with an infinity.\<close>

fun jsign :: "jsnum \<Rightarrow> int" where
  "jsign (Fin a) = (if a = 0 then 0 else if 0 < a then 1 else - 1)"
| "jsign PInf = 1"
| "jsign NInf = - 1"
| "jsign NaN = 0"

definition inf_of_sign :: "int \<Rightarrow> jsnum" where
  "inf_of_sign s = (if s = 0 then NaN else if 0 < s then PInf else NInf)"

fun jmul :: "jsnum \<Rightarrow> jsnum \<Rightarrow> jsnum" where
  "jmul (Fin a) (Fin b) = Fin (a * b)"
| "jmul NaN _ = NaN"
| "jmul _ NaN = NaN"
| "jmul a b = inf_of_sign (jsign a * jsign b)"

fun jdiv :: "jsnum \<Rightarrow> jsnum \<Rightarrow> jsnum" where
  "jdiv (Fin a) (Fin b) = (if b = 0 then inf_of_sign (jsign (Fin a)) else Fin (a / b))"
| "jdiv NaN _ = NaN"
| "jdiv _ NaN = NaN"
| "jdiv (Fin a) _ = Fin 0"
| "jdiv a (Fin b) = inf_of_sign (jsign a * (if b < 0 then - 1 else 1))"
| "jdiv _ _ = NaN"

text \<open>
  The remainder \<open>%\<close> has the sign of the dividend; it is NaN when the divisor is zero
  or the dividend is infinite, and the dividend itself when only the divisor is infinite.
\<close>

definition trunc :: "real \<Rightarrow> int" where
  "trunc x = (if 0 \<le> x then \<lfloor>x\<rfloor> else \<lceil>x\<rceil>)"

fun jmod :: "jsnum \<Rightarrow> jsnum \<Rightarrow> jsnum" where
  "jmod (Fin a) (Fin b) = (if b = 0 then NaN else Fin (a - b * of_int (trunc (a / b))))"
| "jmod NaN _ = NaN"
| "jmod _ NaN = NaN"
| "jmod (Fin a) _ = Fin a"
| "jmod _ _ = NaN"

fun jlt :: "jsnum \<Rightarrow> jsnum \<Rightarrow> bool" where
  "jlt (Fin a) (Fin b) = (a < b)"
| "jlt NaN _ = False"
| "jlt _ NaN = False"
| "jlt _ NInf = False"
| "jlt PInf _ = False"
| "jlt _ _ = True"

definition jgt :: "jsnum \<Rightarrow> jsnum \<Rightarrow> bool" where
  "jgt a b = jlt b a"

text \<open>Strict equality \<open>===\<close> on numbers: NaN is not equal to itself.\<close>

definition jeq :: "jsnum \<Rightarrow> jsnum \<Rightarrow> bool" where
  "jeq a b = (a = b \<and> a \<noteq> NaN)"

definition jle :: "jsnum \<Rightarrow> jsnum \<Rightarrow> bool" where
  "jle a b = (jlt a b \<or> jeq a b)"

definition jge :: "jsnum \<Rightarrow> jsnum \<Rightarrow> bool" where
  "jge a b = jle b a"

text \<open>A number is falsy when it is zero or NaN (\<open>x || 0\<close>).\<close>

definition truthy :: "jsnum \<Rightarrow> bool" where
  "truthy v = (v \<noteq> NaN \<and> v \<noteq> Fin 0)"

definition Math_min :: "jsnum \<Rightarrow> jsnum \<Rightarrow> jsnum" where
  "Math_min a b = (if a = NaN \<or> b = NaN then NaN else if jlt b a then b else a)"

definition Math_max :: "jsnum \<Rightarrow> jsnum \<Rightarrow> jsnum" where
  "Math_max a b = (if a = NaN \<or> b = NaN then NaN else if jlt a b then b else a)"

fun Math_abs :: "jsnum \<Rightarrow> jsnum" where
  "Math_abs (Fin a) = Fin \<bar>a\<bar>"
| "Math_abs NaN = NaN"
| "Math_abs _ = PInf"

fun Math_cos :: "jsnum \<Rightarrow> jsnum" where
  "Math_cos (Fin a) = Fin (cos a)"
| "Math_cos _ = NaN"

fun Math_sin :: "jsnum \<Rightarrow> jsnum" where
  "Math_sin (Fin a) = Fin (sin a)"
| "Math_sin _ = NaN"

fun Math_tan :: "jsnum \<Rightarrow> jsnum" where
  "Math_tan (Fin a) = Fin (tan a)"
| "Math_tan _ = NaN"

fun Math_exp :: "jsnum \<Rightarrow> jsnum" where
  "Math_exp (Fin a) = Fin (exp a)"
| "Math_exp PInf = PInf"
| "Math_exp NInf = Fin 0"
| "Math_exp NaN = NaN"

fun Math_sqrt :: "jsnum \<Rightarrow> jsnum" where
  "Math_sqrt (Fin a) = (if a < 0 then NaN else Fin (sqrt a))"
| "Math_sqrt PInf = PInf"
| "Math_sqrt _ = NaN"

text \<open>\<open>Math.round\<close> rounds to the nearest integer, a half upwards.\<close>

fun Math_round :: "jsnum \<Rightarrow> jsnum" where
  "Math_round (Fin a) = Fin (of_int \<lfloor>a + 1 / 2\<rfloor>)"
| "Math_round v = v"

definition is_int :: "real \<Rightarrow> bool" where
  "is_int y = (of_int \<lfloor>y\<rfloor> = y)"

definition odd_int :: "real \<Rightarrow> bool" where
  "odd_int y = (is_int y \<and> odd \<lfloor>y\<rfloor>)"

text \<open>A finite base to a finite exponent.\<close>

definition fin_pow :: "real \<Rightarrow> real \<Rightarrow> jsnum" where
  "fin_pow x y =
     (if y = 0 then Fin 1
      else if x = 0 then (if 0 < y then Fin 0 else PInf)
      else if is_int y then
        (if 0 \<le> y then Fin (x ^ nat \<lfloor>y\<rfloor>) else Fin (1 / x ^ nat (- \<lfloor>y\<rfloor>)))
      else if x < 0 then NaN
      else Fin (x powr y))"

fun Math_pow :: "jsnum \<Rightarrow> jsnum \<Rightarrow> jsnum" where
  "Math_pow _ NaN = NaN"
| "Math_pow b (Fin y) =
     (if y = 0 then Fin 1
      else case b of
        NaN \<Rightarrow> NaN
      | PInf \<Rightarrow> (if 0 < y then PInf else Fin 0)
      | NInf \<Rightarrow> (if 0 < y then (if odd_int y then NInf else PInf) else Fin 0)
      | Fin x \<Rightarrow> fin_pow x y)"
| "Math_pow NaN _ = NaN"
| "Math_pow (Fin x) PInf =
     (if 1 < \<bar>x\<bar> then PInf else if \<bar>x\<bar> = 1 then NaN else Fin 0)"
| "Math_pow (Fin x) NInf =
     (if 1 < \<bar>x\<bar> then Fin 0 else if \<bar>x\<bar> = 1 then NaN else PInf)"
| "Math_pow _ PInf = PInf"
| "Math_pow _ NInf = Fin 0"

section \<open>Characters and strings\<close>

text \<open>
  A character of the source text is a \<^typ>\<open>char\<close>; the script language itself is
  ASCII (every other character outside a comment or a directive is a lexical error).
\<close>

definition TAB :: char where "TAB = CHR 0x09"
definition LF :: char where "LF = CHR 0x0A"
definition CR :: char where "CR = CHR 0x0D"

definition isDigit :: "char \<Rightarrow> bool" where
  "isDigit c = (CHR ''0'' \<le> c \<and> c \<le> CHR ''9'')"

definition isAlpha :: "char \<Rightarrow> bool" where
  "isAlpha c = ((CHR ''a'' \<le> c \<and> c \<le> CHR ''z'') \<or> (CHR ''A'' \<le> c \<and> c \<le> CHR ''Z''))"

definition isAlphaNumeric :: "char \<Rightarrow> bool" where
  "isAlphaNumeric c = (isAlpha c \<or> isDigit c \<or> c = CHR ''_'')"

text \<open>The white space of \<open>String.prototype.trim\<close>, of \<open>parseFloat\<close> and of \<open>\s\<close>.\<close>

definition isSpace :: "char \<Rightarrow> bool" where
  "isSpace c = (c \<in> set [CHR '' '', CHR 0x09, CHR 0x0A, CHR 0x0B, CHR 0x0C, CHR 0x0D, CHR 0xA0])"

definition lower_char :: "char \<Rightarrow> char" where
  "lower_char c =
     (if CHR ''A'' \<le> c \<and> c \<le> CHR ''Z'' then char_of (of_char c + (32::nat)) else c)"

definition toLowerCase :: "string \<Rightarrow> string" where
  "toLowerCase s = map lower_char s"

definition trim :: "string \<Rightarrow> string" where
  "trim s = rev (dropWhile isSpace (rev (dropWhile isSpace s)))"

definition substring :: "string \<Rightarrow> nat \<Rightarrow> nat \<Rightarrow> string" where
  "substring s i j = take (j - i) (drop i s)"

subsection \<open>parseFloat\<close>

definition digit_val :: "char \<Rightarrow> nat" where
  "digit_val c = of_char c - 48"

definition digits_val :: "string \<Rightarrow> nat" where
  "digits_val ds = foldl (\<lambda>a c. 10 * a + digit_val c) 0 ds"

text \<open>
  The exponent part \<open>e[+-]digits\<close> of a decimal literal: its value and whether one is
  there (without a digit there is none).
\<close>

definition exponent_part :: "string \<Rightarrow> int option" where
  "exponent_part s =
     (case s of
        [] \<Rightarrow> None
      | c # r \<Rightarrow>
          if c = CHR ''e'' \<or> c = CHR ''E'' then
            (let neg = (r \<noteq> [] \<and> hd r = CHR ''-'');
                 r' = (if r \<noteq> [] \<and> (hd r = CHR ''-'' \<or> hd r = CHR ''+'') then tl r else r);
                 ds = takeWhile isDigit r'
             in if ds = [] then None
                else Some (if neg then - int (digits_val ds) else int (digits_val ds)))
          else None)"

definition pow10 :: "int \<Rightarrow> real" where
  "pow10 k = (if 0 \<le> k then 10 ^ nat k else 1 / 10 ^ nat (- k))"

text \<open>An unsigned decimal literal at the head of the string, or NaN.\<close>

definition unsigned_decimal :: "string \<Rightarrow> jsnum" where
  "unsigned_decimal s =
     (if take 8 s = ''Infinity'' then PInf
      else
        let ip = takeWhile isDigit s;
            r1 = dropWhile isDigit s;
            dot = (r1 \<noteq> [] \<and> hd r1 = CHR ''.'');
            fp = (if dot then takeWhile isDigit (tl r1) else []);
            r2 = (if dot then dropWhile isDigit (tl r1) else r1)
        in if ip = [] \<and> fp = [] then NaN
           else
             let m = real (digits_val ip) + real (digits_val fp) / 10 ^ length fp
             in case exponent_part r2 of
                  None \<Rightarrow> Fin m
                | Some k \<Rightarrow> Fin (m * pow10 k))"

definition parseFloat :: "string \<Rightarrow> jsnum" where
  "parseFloat str =
     (let s = dropWhile isSpace str
      in if s \<noteq> [] \<and> hd s = CHR ''-'' then jneg (unsigned_decimal (tl s))
         else if s \<noteq> [] \<and> hd s = CHR ''+'' then unsigned_decimal (tl s)
         else unsigned_decimal s)"

section \<open>Tokens and the tokenizer\<close>

datatype TokenType =
    NUMBER | NAME | KEYWORD | OPERATOR | LPAREN | RPAREN | LBRACE | RBRACE
  | SEMICOLON | COMMA | ASSIGN | PREPROCESSOR | EOF

text \<open>A token's value is a number (NUMBER), a text, or \<open>null\<close> (EOF).\<close>

datatype tvalue = VNum jsnum | VStr string | VNull

datatype Token = Token (ttype: TokenType) (tvalue: tvalue) (tline: nat)

text \<open>
  Every \<open>throw new Error(...)\<close> of the tokenizer and the parser, one constructor for
  each message template, with the values the template prints. \<open>TypeError\<close> is the
  exception of the JavaScript runtime for a property read on \<open>undefined\<close>.
\<close>

datatype error =
    UnexpectedCharacter char nat
  | UnexpectedToken tvalue nat
  | Expected string nat
  | CannotReassign string nat
  | DivisionByZero
  | UndefinedVariable string nat
  | UnknownFunction string
  | TypeError

definition KEYWORDS :: "string list" where
  "KEYWORDS = [''if'', ''else'']"

definition OPERATORS :: "string list" where
  "OPERATORS = [''<='', ''>='', ''=='', ''!='', ''&&'', ''||'', ''+'', ''-'', ''*'', ''/'',
     ''%'', ''<'', ''>'']"

definition peek :: "string \<Rightarrow> nat \<Rightarrow> nat \<Rightarrow> char" where
  "peek src pos offset = (let idx = pos + offset in if idx < length src then src ! idx else CHR 0x00)"

function skipWhitespaceAndComments :: "string \<Rightarrow> nat \<Rightarrow> nat \<Rightarrow> nat \<times> nat" where
  "skipWhitespaceAndComments src pos line =
     (if pos < length src then
        (if src ! pos = CHR '' '' \<or> src ! pos = TAB \<or> src ! pos = CR then
           skipWhitespaceAndComments src (pos + 1) line
         else if src ! pos = LF then skipWhitespaceAndComments src (pos + 1) (line + 1)
         else (pos, line))
      else (pos, line))"
  by pat_completeness auto
termination
  by (relation "measure (\<lambda>(src, pos, line). length src - pos)") auto

declare skipWhitespaceAndComments.simps [simp del]

function skipLineComment :: "string \<Rightarrow> nat \<Rightarrow> nat" where
  "skipLineComment src pos =
     (if pos < length src \<and> src ! pos \<noteq> LF then skipLineComment src (pos + 1) else pos)"
  by pat_completeness auto
termination
  by (relation "measure (\<lambda>(src, pos). length src - pos)") auto

declare skipLineComment.simps [simp del]

text \<open>The loop of \<open>readNumber\<close>: digits and at most one dot.\<close>

function readNumber_loop :: "string \<Rightarrow> nat \<Rightarrow> bool \<Rightarrow> nat" where
  "readNumber_loop src pos hasDot =
     (if pos < length src then
        (if isDigit (src ! pos) then readNumber_loop src (pos + 1) hasDot
         else if src ! pos = CHR ''.'' \<and> \<not> hasDot then readNumber_loop src (pos + 1) True
         else pos)
      else pos)"
  by pat_completeness auto
termination
  by (relation "measure (\<lambda>(src, pos, hasDot). length src - pos)") auto

declare readNumber_loop.simps [simp del]

definition readNumber :: "string \<Rightarrow> nat \<Rightarrow> nat \<Rightarrow> Token list \<Rightarrow> nat \<times> nat \<times> Token list" where
  "readNumber src pos line toks =
     (let start = pos;
          pos' = readNumber_loop src pos False;
          val = parseFloat (substring src start pos')
      in (pos', line, toks @ [Token NUMBER (VNum val) line]))"

function readName_loop :: "string \<Rightarrow> nat \<Rightarrow> nat" where
  "readName_loop src pos =
     (if pos < length src \<and> isAlphaNumeric (src ! pos) then readName_loop src (pos + 1) else pos)"
  by pat_completeness auto
termination
  by (relation "measure (\<lambda>(src, pos). length src - pos)") auto

declare readName_loop.simps [simp del]

definition readName :: "string \<Rightarrow> nat \<Rightarrow> nat \<Rightarrow> Token list \<Rightarrow> nat \<times> nat \<times> Token list" where
  "readName src pos line toks =
     (let start = pos;
          pos' = readName_loop src pos;
          name = substring src start pos';
          type = (if toLowerCase name \<in> set KEYWORDS then KEYWORD else NAME)
      in (pos', line,
          toks @ [Token type
            (VStr (if toLowerCase name = ''if'' \<or> toLowerCase name = ''else''
                   then toLowerCase name else name)) line]))"

definition readPreprocessor :: "string \<Rightarrow> nat \<Rightarrow> nat \<Rightarrow> Token list \<Rightarrow> nat \<times> nat \<times> Token list" where
  "readPreprocessor src pos line toks =
     (let start = pos;
          pos' = skipLineComment src pos;
          directive = trim (substring src start pos')
      in (pos', line, toks @ [Token PREPROCESSOR (VStr directive) line]))"

definition tryReadOperator :: "string \<Rightarrow> nat \<Rightarrow> string option" where
  "tryReadOperator src pos =
     find (\<lambda>op. substring src pos (pos + length op) = op) OPERATORS"

definition punctuation :: "char \<Rightarrow> TokenType option" where
  "punctuation c =
     (if c = CHR ''('' then Some LPAREN
      else if c = CHR '')'' then Some RPAREN
      else if c = CHR ''{'' then Some LBRACE
      else if c = CHR ''}'' then Some RBRACE
      else if c = CHR '';'' then Some SEMICOLON
      else if c = CHR '','' then Some COMMA
      else if c = CHR ''='' then Some ASSIGN
      else None)"

text \<open>
  One iteration of the loop of \<open>tokenize\<close>, entered with \<open>pos < length src\<close>: the
  position, the line and the tokens after it, or the lexical error. The \<open>break\<close> after
  the white space leaves the position at the end of the text, where the loop stops.
\<close>

definition tokenize_step ::
  "string \<Rightarrow> nat \<Rightarrow> nat \<Rightarrow> Token list \<Rightarrow> error + nat \<times> nat \<times> Token list" where
  "tokenize_step src pos0 line0 toks =
     (let pos = fst (skipWhitespaceAndComments src pos0 line0);
          line = snd (skipWhitespaceAndComments src pos0 line0)
      in if pos \<ge> length src then Inr (pos, line, toks)
         else
           let char = src ! pos
           in if char = CHR ''#'' \<and> (pos = 0 \<or> src ! (pos - 1) = LF) then
                Inr (readPreprocessor src pos line toks)
              else if char = CHR ''#'' then Inr (skipLineComment src pos, line, toks)
              else if isDigit char \<or> (char = CHR ''.'' \<and> isDigit (peek src pos 1)) then
                Inr (readNumber src pos line toks)
              else if isAlpha char \<or> char = CHR ''_'' then Inr (readName src pos line toks)
              else
                case tryReadOperator src pos of
                  Some op \<Rightarrow> Inr (pos + length op, line, toks @ [Token OPERATOR (VStr op) line])
                | None \<Rightarrow>
                    (case punctuation char of
                       Some ty \<Rightarrow> Inr (pos + 1, line, toks @ [Token ty (VStr [char]) line])
                     | None \<Rightarrow> Inl (UnexpectedCharacter char line)))"

lemma skipWhitespaceAndComments_ge: "pos \<le> fst (skipWhitespaceAndComments src pos line)"
proof (induction src pos line rule: skipWhitespaceAndComments.induct)
  case (1 src pos line)
  show ?case
    using 1 by (subst skipWhitespaceAndComments.simps) auto
qed

lemma skipLineComment_gt:
  "pos < length src \<Longrightarrow> src ! pos \<noteq> LF \<Longrightarrow> pos < skipLineComment src pos"
proof -
  have ge: "p \<le> skipLineComment src p" for p
  proof (induction src p rule: skipLineComment.induct)
    case (1 src pos)
    show ?case
      using 1 by (subst skipLineComment.simps) auto
  qed
  assume "pos < length src" "src ! pos \<noteq> LF"
  then have "skipLineComment src pos = skipLineComment src (pos + 1)"
    by (subst skipLineComment.simps) simp
  with ge [of "pos + 1"] show ?thesis by simp
qed

lemma readNumber_loop_ge: "pos \<le> readNumber_loop src pos d"
proof (induction src pos d rule: readNumber_loop.induct)
  case (1 src pos hasDot)
  show ?case
    using 1 by (subst readNumber_loop.simps) auto
qed

lemma readNumber_loop_gt:
  assumes "pos < length src" "isDigit (src ! pos) \<or> src ! pos = CHR ''.''"
  shows "pos < readNumber_loop src pos False"
proof -
  from assms have "\<exists>d. readNumber_loop src pos False = readNumber_loop src (pos + 1) d"
    by (subst readNumber_loop.simps) auto
  then obtain d where "readNumber_loop src pos False = readNumber_loop src (pos + 1) d" ..
  with readNumber_loop_ge [of "pos + 1" src d] show ?thesis by simp
qed

lemma readName_loop_ge: "pos \<le> readName_loop src pos"
proof (induction src pos rule: readName_loop.induct)
  case (1 src pos)
  show ?case
    using 1 by (subst readName_loop.simps) auto
qed

lemma readName_loop_gt:
  assumes "pos < length src" "isAlpha (src ! pos) \<or> src ! pos = CHR ''_''"
  shows "pos < readName_loop src pos"
proof -
  from assms have "readName_loop src pos = readName_loop src (pos + 1)"
    by (subst readName_loop.simps) (auto simp: isAlphaNumeric_def)
  with readName_loop_ge [of "pos + 1" src] show ?thesis by simp
qed

lemma tryReadOperator_nonempty: "tryReadOperator src pos = Some op \<Longrightarrow> 0 < length op"
  by (auto simp: tryReadOperator_def OPERATORS_def split: if_splits)

lemma LF_not_hash: "CHR ''#'' \<noteq> LF"
  by (simp add: LF_def)

text \<open>Every iteration moves the position forward: the loop of \<open>tokenize\<close> ends.\<close>

lemma tokenize_step_progress:
  assumes "pos < length src" "tokenize_step src pos line toks = Inr (pos', line', toks')"
  shows "pos < pos'"
proof -
  let ?p = "fst (skipWhitespaceAndComments src pos line)"
  have ge: "pos \<le> ?p" by (rule skipWhitespaceAndComments_ge)
  show ?thesis
  proof (cases "?p \<ge> length src")
    case True
    with assms show ?thesis by (auto simp: tokenize_step_def Let_def)
  next
    case False
    then have lt: "?p < length src" by simp
    have c1: "src ! ?p = CHR ''#'' \<Longrightarrow> ?p < skipLineComment src ?p"
      using skipLineComment_gt [OF lt] LF_not_hash by metis
    have c2: "isDigit (src ! ?p) \<or> (src ! ?p = CHR ''.'' \<and> isDigit (peek src ?p 1))
        \<Longrightarrow> ?p < readNumber_loop src ?p False"
      using readNumber_loop_gt [OF lt] by blast
    have c3: "isAlpha (src ! ?p) \<or> src ! ?p = CHR ''_'' \<Longrightarrow> ?p < readName_loop src ?p"
      using readName_loop_gt [OF lt] by blast
    have c4: "\<forall>op. tryReadOperator src ?p = Some op \<longrightarrow> pos < ?p + length op"
    proof (intro allI impI)
      fix op assume "tryReadOperator src ?p = Some op"
      from tryReadOperator_nonempty [OF this] ge show "pos < ?p + length op" by linarith
    qed
    from assms(2) False ge c1 c2 c3 c4 show ?thesis
      unfolding tokenize_step_def Let_def readPreprocessor_def readNumber_def readName_def
      by (auto split: if_splits option.splits)
  qed
qed

function tokenize_loop :: "string \<Rightarrow> nat \<Rightarrow> nat \<Rightarrow> Token list \<Rightarrow> error + Token list" where
  "tokenize_loop src pos line toks =
     (if pos < length src then
        (case tokenize_step src pos line toks of
           Inl e \<Rightarrow> Inl e
         | Inr (pos', line', toks') \<Rightarrow> tokenize_loop src pos' line' toks')
      else Inr (toks @ [Token EOF VNull line]))"
  by pat_completeness auto
termination
proof (relation "measure (\<lambda>(src, pos, line, toks). length src - pos)")
  show "wf (measure (\<lambda>(src, pos, line, toks). length src - pos))" by simp
next
  fix src :: string and pos line :: nat and toks x2 :: "Token list" and x y :: "nat \<times> nat \<times> Token list"
    and pos' line' r
  assume "pos < length src" "tokenize_step src pos line toks = Inr x" "(pos', r) = x" "(line', x2) = r"
  then have "pos < pos'" "pos < length src"
    using tokenize_step_progress [of pos src line toks pos' line' x2] by auto
  then show "((src, pos', line', x2), (src, pos, line, toks))
      \<in> measure (\<lambda>(src, pos, line, toks). length src - pos)"
    by simp
qed

declare tokenize_loop.simps [simp del]

definition tokenize :: "string \<Rightarrow> error + Token list" where
  "tokenize src = tokenize_loop src 0 1 []"

section \<open>The two directive patterns\<close>

text \<open>
  \<open>handlePreprocessor\<close> recognises a directive with \<open>String.prototype.match\<close> and
  one of two regular expressions, both with the flag \<open>i\<close>. They are built from literal
  text (compared without regard to case), greedy runs \<open>\s+\<close>, \<open>\w+\<close> and \<open>\S+\<close>
  (captured or not) and optional groups. \<open>rx_match\<close> is the backtracking matcher of
  JavaScript restricted to these forms: it tries the alternatives in the order of the
  language (a longer run first, an optional group before its omission) and returns the
  captures of the first way that matches, the last group first. A group that did not
  take part is \<open>undefined\<close>, here \<open>None\<close>.
\<close>

datatype cclass = Space | Word | NonSpace

fun in_class :: "cclass \<Rightarrow> char \<Rightarrow> bool" where
  "in_class Space c = isSpace c"
| "in_class Word c = isAlphaNumeric c"
| "in_class NonSpace c = (\<not> isSpace c)"

datatype rx = Lit string | Plus cclass | Cap cclass | Opt "rx list"

fun first_some :: "('a \<Rightarrow> 'b option) \<Rightarrow> 'a list \<Rightarrow> 'b option" where
  "first_some f [] = None"
| "first_some f (k # ks) = (case f k of Some r \<Rightarrow> Some r | None \<Rightarrow> first_some f ks)"

lemma first_some_cong [fundef_cong]:
  "xs = ys \<Longrightarrow> (\<And>x. x \<in> set ys \<Longrightarrow> f x = g x) \<Longrightarrow> first_some f xs = first_some g ys"
  by (induction ys arbitrary: xs) (auto split: option.splits)

text \<open>The lengths a greedy run of the class can take at the head of \<open>s\<close>, longest first.\<close>

definition run_lengths :: "cclass \<Rightarrow> string \<Rightarrow> nat list" where
  "run_lengths c s = rev [1 ..< Suc (length (takeWhile (in_class c) s))]"

fun groups :: "rx \<Rightarrow> nat" where
  "groups (Lit l) = 0"
| "groups (Plus c) = 0"
| "groups (Cap c) = 1"
| "groups (Opt g) = sum_list (map groups g)"

fun rx_match :: "rx list \<Rightarrow> string \<Rightarrow> string option list \<Rightarrow> string option list option" where
  "rx_match [] s caps = Some caps"
| "rx_match (Lit l # r) s caps =
     (if toLowerCase (take (length l) s) = toLowerCase l then rx_match r (drop (length l) s) caps
      else None)"
| "rx_match (Plus c # r) s caps =
     first_some (\<lambda>k. rx_match r (drop k s) caps) (run_lengths c s)"
| "rx_match (Cap c # r) s caps =
     first_some (\<lambda>k. rx_match r (drop k s) (Some (take k s) # caps)) (run_lengths c s)"
| "rx_match (Opt g # r) s caps =
     (case rx_match (g @ r) s caps of
        Some res \<Rightarrow> Some res
      | None \<Rightarrow> rx_match r s (replicate (sum_list (map groups g)) None @ caps))"

text \<open>\<open>str.match(re)\<close> without the flag \<open>g\<close>: the first position where the pattern matches.\<close>

definition str_match :: "rx list \<Rightarrow> string \<Rightarrow> string option list option" where
  "str_match re s =
     map_option rev (first_some (\<lambda>i. rx_match re (drop i s) []) [0 ..< Suc (length s)])"

definition define_param_re :: "rx list" where
  "define_param_re =
     [Lit ''#define_param'', Plus Space, Cap Word, Plus Space, Lit ''range'', Plus Space,
      Opt [Lit ''from'', Plus Space], Cap NonSpace, Plus Space, Lit ''to'', Plus Space,
      Cap NonSpace, Opt [Plus Space, Lit ''default'', Plus Space, Cap NonSpace]]"

definition define_var_re :: "rx list" where
  "define_var_re = [Lit ''#define_var'', Plus Space, Cap Word, Plus Space, Cap NonSpace]"

section \<open>The parser: utilities\<close>

text \<open>
  The variables of a script are a JavaScript object used as a dictionary from names to
  numbers, modelled as a map. (The operator \<open>in\<close> and a property read also consult
  \<open>Object.prototype\<close>; names such as \<open>constructor\<close>, which would find a member
  there, are outside this model.)
\<close>

type_synonym env = "string \<rightharpoonup> jsnum"

text \<open>
  The token under the cursor. The token list of a parse ends with EOF and the cursor never
  passes it (\<open>advance\<close> stops there), so the read is in range; out of range the model
  reads an EOF token.
\<close>

definition current :: "Token list \<Rightarrow> nat \<Rightarrow> Token" where
  "current T p = (if p < length T then T ! p else Token EOF VNull 0)"

definition previous :: "Token list \<Rightarrow> nat \<Rightarrow> Token" where
  "previous T p = (if 0 < p then current T (p - 1) else Token EOF VNull 0)"

definition isAtEnd :: "Token list \<Rightarrow> nat \<Rightarrow> bool" where
  "isAtEnd T p = (ttype (current T p) = EOF)"

definition advance :: "Token list \<Rightarrow> nat \<Rightarrow> nat" where
  "advance T p = (if \<not> isAtEnd T p then p + 1 else p)"

definition check :: "Token list \<Rightarrow> nat \<Rightarrow> TokenType \<Rightarrow> bool" where
  "check T p ty = (\<not> isAtEnd T p \<and> ttype (current T p) = ty)"

text \<open>Whether the operator is under the cursor, and the cursor afterwards.\<close>

definition matchOperator :: "Token list \<Rightarrow> nat \<Rightarrow> string \<Rightarrow> bool \<times> nat" where
  "matchOperator T p v =
     (if check T p OPERATOR \<and> tvalue (current T p) = VStr v then (True, advance T p)
      else (False, p))"

text \<open>The chain \<open>matchOperator(a) || matchOperator(b) || ...\<close> of a loop condition.\<close>

fun matchOperators :: "Token list \<Rightarrow> nat \<Rightarrow> string list \<Rightarrow> bool \<times> nat" where
  "matchOperators T p [] = (False, p)"
| "matchOperators T p (v # vs) =
     (if fst (matchOperator T p v) then matchOperator T p v else matchOperators T p vs)"

definition expect :: "Token list \<Rightarrow> nat \<Rightarrow> TokenType \<Rightarrow> string \<Rightarrow> error + nat" where
  "expect T p ty expected =
     (if check T p ty then Inr (advance T p)
      else Inl (Expected expected (tline (current T p))))"

text \<open>The text of a NAME, KEYWORD or OPERATOR token.\<close>

fun text_of :: "tvalue \<Rightarrow> string" where
  "text_of (VStr s) = s"
| "text_of _ = []"

fun number_of :: "tvalue \<Rightarrow> jsnum" where
  "number_of (VNum v) = v"
| "number_of _ = NaN"

text \<open>
  A call of the parser either runs out of the fuel that bounds the model's recursion,
  throws, or returns.
\<close>

datatype 'a outcome = Timeout | Throw error | Return 'a

fun bind :: "'a outcome \<Rightarrow> ('a \<Rightarrow> 'b outcome) \<Rightarrow> 'b outcome" where
  "bind Timeout f = Timeout"
| "bind (Throw e) f = Throw e"
| "bind (Return a) f = f a"

fun lift :: "error + 'a \<Rightarrow> 'a outcome" where
  "lift (Inl e) = Throw e"
| "lift (Inr a) = Return a"

text \<open>\<open>c ? 1 : 0\<close>\<close>

definition bool_num :: "bool \<Rightarrow> jsnum" where
  "bool_num c = (if c then one else zero)"

subsection \<open>Built-in functions and constants\<close>

text \<open>\<open>args[i]\<close>; a missing argument is \<open>undefined\<close>, which every \<open>Math\<close> function reads as NaN.\<close>

definition arg :: "jsnum list \<Rightarrow> nat \<Rightarrow> jsnum" where
  "arg args i = (if i < length args then args ! i else NaN)"

text \<open>
  The table \<open>BUILTIN_FUNCTIONS\<close>. The last argument is the number that \<open>Math.random()\<close>
  returns at this call.
\<close>

definition BUILTIN_FUNCTIONS :: "string \<Rightarrow> (jsnum list \<Rightarrow> real \<Rightarrow> jsnum) option" where
  "BUILTIN_FUNCTIONS f =
     (if f = ''abs'' then Some (\<lambda>args r. Math_abs (arg args 0))
      else if f = ''cos'' then Some (\<lambda>args r. Math_cos (arg args 0))
      else if f = ''sin'' then Some (\<lambda>args r. Math_sin (arg args 0))
      else if f = ''tan'' then Some (\<lambda>args r. Math_tan (arg args 0))
      else if f = ''exp'' then Some (\<lambda>args r. Math_exp (arg args 0))
      else if f = ''sqrt'' then Some (\<lambda>args r. Math_sqrt (arg args 0))
      else if f = ''int'' then Some (\<lambda>args r. Math_round (arg args 0))
      else if f = ''pow'' then Some (\<lambda>args r. Math_pow (arg args 0) (arg args 1))
      else if f = ''min'' then Some (\<lambda>args r. Math_min (arg args 0) (arg args 1))
      else if f = ''max'' then Some (\<lambda>args r. Math_max (arg args 0) (arg args 1))
      else if f = ''random'' then Some (\<lambda>args r. Fin r)
      else None)"

definition CONSTANTS :: env where
  "CONSTANTS = [''pi'' \<mapsto> Fin pi, ''e'' \<mapsto> Fin (exp 1)]"

section \<open>The parser: expressions\<close>

text \<open>
  The recursive descent over the token list \<open>T\<close> with the variables \<open>V\<close>; no expression
  changes a variable, so an expression takes the cursor and returns its value and the
  cursor after it. \<open>R p\<close> is the number \<open>Math.random()\<close> returns to the call that ends
  before position \<open>p\<close> (the cursor only moves forward, so no call is made twice in one
  parse). The first argument is the fuel: every call passes one less to the calls it
  makes, and a call with none left is \<open>Timeout\<close>.
\<close>

function (sequential) expression :: "nat \<Rightarrow> Token list \<Rightarrow> env \<Rightarrow> (nat \<Rightarrow> real) \<Rightarrow> nat \<Rightarrow> (jsnum \<times> nat) outcome"
  and or_expr :: "nat \<Rightarrow> Token list \<Rightarrow> env \<Rightarrow> (nat \<Rightarrow> real) \<Rightarrow> nat \<Rightarrow> (jsnum \<times> nat) outcome"
  and or_loop :: "nat \<Rightarrow> Token list \<Rightarrow> env \<Rightarrow> (nat \<Rightarrow> real) \<Rightarrow> jsnum \<Rightarrow> nat \<Rightarrow> (jsnum \<times> nat) outcome"
  and and_expr :: "nat \<Rightarrow> Token list \<Rightarrow> env \<Rightarrow> (nat \<Rightarrow> real) \<Rightarrow> nat \<Rightarrow> (jsnum \<times> nat) outcome"
  and and_loop :: "nat \<Rightarrow> Token list \<Rightarrow> env \<Rightarrow> (nat \<Rightarrow> real) \<Rightarrow> jsnum \<Rightarrow> nat \<Rightarrow> (jsnum \<times> nat) outcome"
  and equality :: "nat \<Rightarrow> Token list \<Rightarrow> env \<Rightarrow> (nat \<Rightarrow> real) \<Rightarrow> nat \<Rightarrow> (jsnum \<times> nat) outcome"
  and equality_loop :: "nat \<Rightarrow> Token list \<Rightarrow> env \<Rightarrow> (nat \<Rightarrow> real) \<Rightarrow> jsnum \<Rightarrow> nat \<Rightarrow> (jsnum \<times> nat) outcome"
  and comparison :: "nat \<Rightarrow> Token list \<Rightarrow> env \<Rightarrow> (nat \<Rightarrow> real) \<Rightarrow> nat \<Rightarrow> (jsnum \<times> nat) outcome"
  and comparison_loop :: "nat \<Rightarrow> Token list \<Rightarrow> env \<Rightarrow> (nat \<Rightarrow> real) \<Rightarrow> jsnum \<Rightarrow> nat \<Rightarrow> (jsnum \<times> nat) outcome"
  and term_expr :: "nat \<Rightarrow> Token list \<Rightarrow> env \<Rightarrow> (nat \<Rightarrow> real) \<Rightarrow> nat \<Rightarrow> (jsnum \<times> nat) outcome"
  and term_loop :: "nat \<Rightarrow> Token list \<Rightarrow> env \<Rightarrow> (nat \<Rightarrow> real) \<Rightarrow> jsnum \<Rightarrow> nat \<Rightarrow> (jsnum \<times> nat) outcome"
  and factor :: "nat \<Rightarrow> Token list \<Rightarrow> env \<Rightarrow> (nat \<Rightarrow> real) \<Rightarrow> nat \<Rightarrow> (jsnum \<times> nat) outcome"
  and factor_loop :: "nat \<Rightarrow> Token list \<Rightarrow> env \<Rightarrow> (nat \<Rightarrow> real) \<Rightarrow> jsnum \<Rightarrow> nat \<Rightarrow> (jsnum \<times> nat) outcome"
  and unary :: "nat \<Rightarrow> Token list \<Rightarrow> env \<Rightarrow> (nat \<Rightarrow> real) \<Rightarrow> nat \<Rightarrow> (jsnum \<times> nat) outcome"
  and primary :: "nat \<Rightarrow> Token list \<Rightarrow> env \<Rightarrow> (nat \<Rightarrow> real) \<Rightarrow> nat \<Rightarrow> (jsnum \<times> nat) outcome"
  and functionCall :: "nat \<Rightarrow> Token list \<Rightarrow> env \<Rightarrow> (nat \<Rightarrow> real) \<Rightarrow> string \<Rightarrow> nat \<Rightarrow> (jsnum \<times> nat) outcome"
  and args_loop :: "nat \<Rightarrow> Token list \<Rightarrow> env \<Rightarrow> (nat \<Rightarrow> real) \<Rightarrow> jsnum list \<Rightarrow> nat \<Rightarrow> (jsnum list \<times> nat) outcome"
where
  "expression 0 T V R p = Timeout"
| "expression (Suc n) T V R p = or_expr n T V R p"

| "or_expr 0 T V R p = Timeout"
| "or_expr (Suc n) T V R p =
     bind (and_expr n T V R p) (\<lambda>(left, p1). or_loop n T V R left p1)"
| "or_loop 0 T V R left p = Timeout"
| "or_loop (Suc n) T V R left p =
     (if fst (matchOperator T p ''||'') then
        bind (and_expr n T V R (snd (matchOperator T p ''||''))) (\<lambda>(right, p1).
          or_loop n T V R (bool_num (jgt left zero \<or> jgt right zero)) p1)
      else Return (left, p))"

| "and_expr 0 T V R p = Timeout"
| "and_expr (Suc n) T V R p =
     bind (equality n T V R p) (\<lambda>(left, p1). and_loop n T V R left p1)"
| "and_loop 0 T V R left p = Timeout"
| "and_loop (Suc n) T V R left p =
     (if fst (matchOperator T p ''&&'') then
        bind (equality n T V R (snd (matchOperator T p ''&&''))) (\<lambda>(right, p1).
          and_loop n T V R (bool_num (jgt left zero \<and> jgt right zero)) p1)
      else Return (left, p))"

| "equality 0 T V R p = Timeout"
| "equality (Suc n) T V R p =
     bind (comparison n T V R p) (\<lambda>(left, p1). equality_loop n T V R left p1)"
| "equality_loop 0 T V R left p = Timeout"
| "equality_loop (Suc n) T V R left p =
     (if fst (matchOperators T p [''=='', ''!='']) then
        (let p1 = snd (matchOperators T p [''=='', ''!='']);
             op = tvalue (previous T p1)
         in bind (comparison n T V R p1) (\<lambda>(right, p2).
              equality_loop n T V R
                (if op = VStr ''=='' then bool_num (jeq left right)
                 else bool_num (\<not> jeq left right)) p2))
      else Return (left, p))"

| "comparison 0 T V R p = Timeout"
| "comparison (Suc n) T V R p =
     bind (term_expr n T V R p) (\<lambda>(left, p1). comparison_loop n T V R left p1)"
| "comparison_loop 0 T V R left p = Timeout"
| "comparison_loop (Suc n) T V R left p =
     (if fst (matchOperators T p [''<'', ''>'', ''<='', ''>='']) then
        (let p1 = snd (matchOperators T p [''<'', ''>'', ''<='', ''>='']);
             op = tvalue (previous T p1)
         in bind (term_expr n T V R p1) (\<lambda>(right, p2).
              comparison_loop n T V R
                (if op = VStr ''<'' then bool_num (jlt left right)
                 else if op = VStr ''>'' then bool_num (jgt left right)
                 else if op = VStr ''<='' then bool_num (jle left right)
                 else if op = VStr ''>='' then bool_num (jge left right)
                 else left) p2))
      else Return (left, p))"

| "term_expr 0 T V R p = Timeout"
| "term_expr (Suc n) T V R p =
     bind (factor n T V R p) (\<lambda>(left, p1). term_loop n T V R left p1)"
| "term_loop 0 T V R left p = Timeout"
| "term_loop (Suc n) T V R left p =
     (if fst (matchOperators T p [''+'', ''-'']) then
        (let p1 = snd (matchOperators T p [''+'', ''-'']);
             op = tvalue (previous T p1)
         in bind (factor n T V R p1) (\<lambda>(right, p2).
              term_loop n T V R
                (if op = VStr ''+'' then jadd left right else jsub left right) p2))
      else Return (left, p))"

| "factor 0 T V R p = Timeout"
| "factor (Suc n) T V R p =
     bind (unary n T V R p) (\<lambda>(left, p1). factor_loop n T V R left p1)"
| "factor_loop 0 T V R left p = Timeout"
| "factor_loop (Suc n) T V R left p =
     (if fst (matchOperators T p [''*'', ''/'', ''%'']) then
        (let p1 = snd (matchOperators T p [''*'', ''/'', ''%'']);
             op = tvalue (previous T p1)
         in bind (unary n T V R p1) (\<lambda>(right, p2).
              if op = VStr ''*'' then factor_loop n T V R (jmul left right) p2
              else if op = VStr ''/'' then
                (if jeq right (Fin 0) then Throw DivisionByZero
                 else factor_loop n T V R (jdiv left right) p2)
              else factor_loop n T V R (jmod left right) p2))
      else Return (left, p))"

| "unary 0 T V R p = Timeout"
| "unary (Suc n) T V R p =
     (if fst (matchOperator T p ''-'') then
        bind (unary n T V R (snd (matchOperator T p ''-''))) (\<lambda>(v, p1). Return (jneg v, p1))
      else primary n T V R p)"

| "primary 0 T V R p = Timeout"
| "primary (Suc n) T V R p =
     (let token = current T p
      in if ttype token = NUMBER then Return (number_of (tvalue token), advance T p)
         else if ttype token = LPAREN then
           bind (expression n T V R (advance T p)) (\<lambda>(v, p1).
             bind (lift (expect T p1 RPAREN '')'')) (\<lambda>p2. Return (v, p2)))
         else if ttype token = NAME then
           (let p1 = advance T p
            in if check T p1 LPAREN then functionCall n T V R (text_of (tvalue token)) p1
               else
                 let name = text_of (tvalue token)
                 in case V name of
                      Some v \<Rightarrow> Return (v, p1)
                    | None \<Rightarrow>
                        (case CONSTANTS (toLowerCase name) of
                           Some c \<Rightarrow> Return (c, p1)
                         | None \<Rightarrow> Throw (UndefinedVariable name (tline token))))
         else Throw (UnexpectedToken (tvalue token) (tline token)))"

| "functionCall 0 T V R name p = Timeout"
| "functionCall (Suc n) T V R name p =
     bind (lift (expect T p LPAREN ''('')) (\<lambda>p1.
       bind (if \<not> check T p1 RPAREN then
               bind (expression n T V R p1) (\<lambda>(a, p2). args_loop n T V R [a] p2)
             else Return ([], p1)) (\<lambda>(args, p3).
         bind (lift (expect T p3 RPAREN '')'')) (\<lambda>p4.
           case BUILTIN_FUNCTIONS (toLowerCase name) of
             Some f \<Rightarrow> Return (f args (R p4), p4)
           | None \<Rightarrow> Throw (UnknownFunction name))))"
| "args_loop 0 T V R args p = Timeout"
| "args_loop (Suc n) T V R args p =
     (if check T p COMMA then
        bind (expression n T V R (advance T p)) (\<lambda>(a, p1). args_loop n T V R (args @ [a]) p1)
      else Return (args, p))"
  by pat_completeness auto

text \<open>Every call passes on less fuel than it got: the measure is the fuel of the call.\<close>

termination
  by (relation "measure
    (case_sum
      (case_sum (case_sum (case_sum fst fst) (case_sum fst fst))
       (case_sum (case_sum fst fst) (case_sum fst fst)))
      (case_sum (case_sum (case_sum fst fst) (case_sum fst fst))
       (case_sum (case_sum fst fst) (case_sum fst (case_sum fst fst)))))") simp_all

section \<open>The parser: statements\<close>

text \<open>
  \<open>skipBlock\<close> moves the cursor to the brace that closes the block it is in, counting
  braces; it reads the types of the tokens and nothing else.
\<close>

function skipBlock :: "Token list \<Rightarrow> nat \<Rightarrow> nat \<Rightarrow> nat" where
  "skipBlock T depth p =
     (if depth > 0 \<and> \<not> isAtEnd T p then
        (let d1 = (if check T p LBRACE then depth + 1 else depth);
             d2 = (if check T p RBRACE then d1 - 1 else d1)
         in if d2 > 0 then skipBlock T d2 (advance T p) else skipBlock T d2 p)
      else p)"
  by pat_completeness auto
termination
proof (relation "measures [\<lambda>(T, depth, p). length T - p, \<lambda>(T, depth, p). depth]")
  show "wf (measures [\<lambda>(T, depth, p). length T - p, \<lambda>(T, depth, p). depth])" by simp
next
  fix T :: "Token list" and depth p d1 d2 :: nat
  assume a: "0 < depth \<and> \<not> isAtEnd T p"
  then have "p < length T"
    by (auto simp: isAtEnd_def current_def split: if_splits)
  with a show "((T, d2, advance T p), (T, depth, p))
      \<in> measures [\<lambda>(T, depth, p). length T - p, \<lambda>(T, depth, p). depth]"
    by (auto simp: advance_def)
next
  fix T :: "Token list" and depth p d1 d2 :: nat
  assume "0 < depth \<and> \<not> isAtEnd T p" "\<not> 0 < d2"
  then show "((T, d2, p), (T, depth, p))
      \<in> measures [\<lambda>(T, depth, p). length T - p, \<lambda>(T, depth, p). depth]"
    by auto
qed

declare skipBlock.simps [simp del]

text \<open>
  What running statements comes to: the fuel ran out, an error was thrown (with the
  variables as they were at the throw), or the statements ended normally, with the cursor
  and the variables after them.
\<close>

datatype exec = Diverge | Raised error env | Normal nat env

text \<open>\<open>expect\<close> in a statement: the throw keeps the variables \<open>V\<close>.\<close>

definition expecting ::
  "Token list \<Rightarrow> nat \<Rightarrow> TokenType \<Rightarrow> string \<Rightarrow> env \<Rightarrow> (nat \<Rightarrow> exec) \<Rightarrow> exec" where
  "expecting T p ty expected V k =
     (case expect T p ty expected of Inl e \<Rightarrow> Raised e V | Inr p' \<Rightarrow> k p')"

text \<open>An expression in a statement.\<close>

definition evaluating ::
  "(jsnum \<times> nat) outcome \<Rightarrow> env \<Rightarrow> (jsnum \<Rightarrow> nat \<Rightarrow> exec) \<Rightarrow> exec" where
  "evaluating r V k =
     (case r of Timeout \<Rightarrow> Diverge | Throw e \<Rightarrow> Raised e V | Return (v, p) \<Rightarrow> k v p)"

definition assignment :: "nat \<Rightarrow> Token list \<Rightarrow> (nat \<Rightarrow> real) \<Rightarrow> nat \<Rightarrow> env \<Rightarrow> exec" where
  "assignment n T R p V =
     (let name = text_of (tvalue (current T p));
          p1 = advance T p
      in expecting T p1 ASSIGN ''='' V (\<lambda>p2.
           evaluating (expression n T V R p2) V (\<lambda>val p3.
             expecting T p3 SEMICOLON '';'' V (\<lambda>p4.
               if toLowerCase name \<in> dom CONSTANTS then
                 Raised (CannotReassign name (tline (previous T p4))) V
               else Normal p4 (V(name \<mapsto> val))))))"

text \<open>Whether the keyword \<open>else\<close> is under the cursor.\<close>

definition at_else :: "Token list \<Rightarrow> nat \<Rightarrow> bool" where
  "at_else T p = (check T p KEYWORD \<and> tvalue (current T p) = VStr ''else'')"

fun statement :: "nat \<Rightarrow> Token list \<Rightarrow> (nat \<Rightarrow> real) \<Rightarrow> nat \<Rightarrow> env \<Rightarrow> exec"
  and ifStatement :: "nat \<Rightarrow> Token list \<Rightarrow> (nat \<Rightarrow> real) \<Rightarrow> nat \<Rightarrow> env \<Rightarrow> exec"
  and block_loop :: "nat \<Rightarrow> Token list \<Rightarrow> (nat \<Rightarrow> real) \<Rightarrow> nat \<Rightarrow> env \<Rightarrow> exec"
where
  "statement 0 T R p V = Diverge"
| "statement (Suc n) T R p V =
     (let token = current T p
      in if ttype token = KEYWORD \<and> tvalue token = VStr ''if'' then ifStatement n T R p V
         else if ttype token = NAME then assignment n T R p V
         else if ttype token = RBRACE \<or> ttype token = EOF then Normal p V
         else Raised (UnexpectedToken (tvalue token) (tline token)) V)"

| "ifStatement 0 T R p V = Diverge"
| "ifStatement (Suc n) T R p V =
     (let p1 = advance T p
      in expecting T p1 LPAREN ''('' V (\<lambda>p2.
           evaluating (expression n T V R p2) V (\<lambda>condition p3.
             expecting T p3 RPAREN '')'' V (\<lambda>p4.
               expecting T p4 LBRACE ''{'' V (\<lambda>p5.
                 if jgt condition zero then
                   (case block_loop n T R p5 V of
                      Normal p6 V1 \<Rightarrow>
                        expecting T p6 RBRACE ''}'' V1 (\<lambda>p7.
                          if at_else T p7 then
                            expecting T (advance T p7) LBRACE ''{'' V1 (\<lambda>p8.
                              expecting T (skipBlock T 1 p8) RBRACE ''}'' V1 (\<lambda>p9.
                                Normal p9 V1))
                          else Normal p7 V1)
                    | r \<Rightarrow> r)
                 else
                   expecting T (skipBlock T 1 p5) RBRACE ''}'' V (\<lambda>p7.
                     if at_else T p7 then
                       expecting T (advance T p7) LBRACE ''{'' V (\<lambda>p8.
                         case block_loop n T R p8 V of
                           Normal p9 V1 \<Rightarrow>
                             expecting T p9 RBRACE ''}'' V1 (\<lambda>p10. Normal p10 V1)
                         | r \<Rightarrow> r)
                     else Normal p7 V))))))"

| "block_loop 0 T R p V = Diverge"
| "block_loop (Suc n) T R p V =
     (if \<not> check T p RBRACE \<and> \<not> isAtEnd T p then
        (case statement n T R p V of
           Normal p' V' \<Rightarrow> block_loop n T R p' V'
         | r \<Rightarrow> r)
      else Normal p V)"

text \<open>
  The loop of \<open>parse\<close>: \<open>while (!this.isAtEnd()) this.statement()\<close>. A statement returns
  without moving the cursor when a closing brace is under it, so this loop does not end
  on a closing brace outside a block.
\<close>

fun statements :: "nat \<Rightarrow> Token list \<Rightarrow> (nat \<Rightarrow> real) \<Rightarrow> nat \<Rightarrow> env \<Rightarrow> exec" where
  "statements 0 T R p V = Diverge"
| "statements (Suc n) T R p V =
     (if \<not> isAtEnd T p then
        (case statement n T R p V of
           Normal p' V' \<Rightarrow> statements n T R p' V'
         | r \<Rightarrow> r)
      else Normal p V)"

section \<open>The parser object, directives and \<open>parse\<close>\<close>

text \<open>
  A parameter descriptor, as \<open>handlePreprocessor\<close> pushes it (the fields \<open>name\<close>,
  \<open>min\<close>, \<open>max\<close> and \<open>default\<close> of the source; a \<open>define_var\<close> descriptor has no
  \<open>min\<close> and no \<open>max\<close>).
\<close>

record Parameter =
  pname :: string
  pmin :: "jsnum option"
  pmax :: "jsnum option"
  pdefault :: jsnum
  isStatic :: bool

text \<open>
  The fields of a \<open>ScriptParser\<close> that outlive a call. The cursor \<open>pos\<close> is set to 0
  by \<open>parse\<close> before it is read, so it is an argument of the functions above.
\<close>

record ScriptParser =
  source :: string
  tokens :: "Token list"
  variables :: env
  staticVariables :: env
  params :: "Parameter list"
  errors :: "error list"

definition new_ScriptParser :: "string \<Rightarrow> ScriptParser" where
  "new_ScriptParser src =
     \<lparr>source = src, tokens = [], variables = Map.empty, staticVariables = Map.empty,
      params = [], errors = []\<rparr>"

definition setVariable :: "ScriptParser \<Rightarrow> string \<Rightarrow> jsnum \<Rightarrow> ScriptParser" where
  "setVariable P name val = P\<lparr>variables := (variables P)(name \<mapsto> val)\<rparr>"

definition resetStaticVars :: "ScriptParser \<Rightarrow> ScriptParser" where
  "resetStaticVars P = P\<lparr>staticVariables := Map.empty\<rparr>"

definition getParams :: "ScriptParser \<Rightarrow> Parameter list" where
  "getParams P = params P"

text \<open>The body of \<open>handlePreprocessor\<close> after a match of the first pattern.\<close>

definition define_param ::
  "string \<Rightarrow> string \<Rightarrow> string \<Rightarrow> string option \<Rightarrow> ScriptParser \<Rightarrow> ScriptParser" where
  "define_param name minStr maxStr defaultStr P =
     (let mn = parseFloat minStr;
          mx = parseFloat maxStr;
          defaultVal = (case defaultStr of
                          Some d \<Rightarrow> (if d = [] then mn else parseFloat d)
                        | None \<Rightarrow> mn);
          P1 = P\<lparr>params := params P @
                 [\<lparr>pname = name, pmin = Some mn, pmax = Some mx, pdefault = defaultVal,
                   isStatic = False\<rparr>]\<rparr>
      in if name \<in> dom (variables P1) then P1
         else P1\<lparr>variables := (variables P1)(name \<mapsto> defaultVal)\<rparr>)"

text \<open>The body after a match of the second pattern.\<close>

definition define_var :: "string \<Rightarrow> string \<Rightarrow> ScriptParser \<Rightarrow> ScriptParser" where
  "define_var name valueStr P =
     (let val = parseFloat valueStr;
          P1 = P\<lparr>params := params P @
                 [\<lparr>pname = name, pmin = None, pmax = None, pdefault = val, isStatic = True\<rparr>]\<rparr>
      in if name \<in> dom (staticVariables P1) then P1
         else P1\<lparr>staticVariables := (staticVariables P1)(name \<mapsto> val),
                 variables := (variables P1)(name \<mapsto> val)\<rparr>)"

definition handlePreprocessor :: "string \<Rightarrow> ScriptParser \<Rightarrow> ScriptParser" where
  "handlePreprocessor directive P =
     (case str_match define_param_re directive of
        Some [Some name, Some minStr, Some maxStr, defaultStr] \<Rightarrow>
          define_param name minStr maxStr defaultStr P
      | _ \<Rightarrow>
          (case str_match define_var_re directive of
             Some [Some name, Some valueStr] \<Rightarrow> define_var name valueStr P
           | _ \<Rightarrow> P))"

definition processPreprocessor :: "ScriptParser \<Rightarrow> ScriptParser" where
  "processPreprocessor P =
     (let P1 = foldl (\<lambda>Q token.
                  if ttype token = PREPROCESSOR then handlePreprocessor (text_of (tvalue token)) Q
                  else Q)
                (P\<lparr>params := []\<rparr>) (tokens P)
      in P1\<lparr>tokens := filter (\<lambda>token. ttype token \<noteq> PREPROCESSOR) (tokens P)\<rparr>)"

text \<open>
  What \<open>parse\<close> returns: on a lexical error the context object it was given, which has
  the fields \<open>rate\<close> and \<open>traffic\<close> and no field \<open>errors\<close>; otherwise a new object
  with the fields \<open>rate\<close> and \<open>errors\<close>.
\<close>

datatype parse_result = ContextObject jsnum jsnum | ResultObject jsnum "error list"

text \<open>\<open>this.variables.rate || 0\<close>\<close>

definition rate_or_zero :: "env \<Rightarrow> jsnum" where
  "rate_or_zero V = (case V ''rate'' of Some v \<Rightarrow> (if truthy v then v else Fin 0) | None \<Rightarrow> Fin 0)"

text \<open>Saving the static variables back, and the object returned.\<close>

definition save_static :: "ScriptParser \<Rightarrow> ScriptParser" where
  "save_static P =
     P\<lparr>staticVariables :=
         foldl (\<lambda>S param. S(pname param := variables P (pname param)))
           (staticVariables P) (filter isStatic (params P))\<rparr>"

definition finish :: "ScriptParser \<Rightarrow> parse_result \<times> ScriptParser" where
  "finish P = (ResultObject (rate_or_zero (variables (save_static P))) (errors P), save_static P)"

text \<open>
  The start of \<open>parse(context)\<close> with \<open>context = {rate: r, traffic: t}\<close>, the only
  form the callers use: the errors are emptied and the variables are built anew from the
  context, the constants and the static variables, in this order.
\<close>

definition begin_parse :: "ScriptParser \<Rightarrow> jsnum \<Rightarrow> jsnum \<Rightarrow> ScriptParser" where
  "begin_parse P r t =
     P\<lparr>errors := [],
       variables := ([''rate'' \<mapsto> r, ''traffic'' \<mapsto> t] ++ CONSTANTS) ++ staticVariables P\<rparr>"

text \<open>The parser after the tokenizer returned \<open>toks\<close> and the directives were processed.\<close>

definition prepare :: "ScriptParser \<Rightarrow> jsnum \<Rightarrow> jsnum \<Rightarrow> Token list \<Rightarrow> ScriptParser" where
  "prepare P r t toks = processPreprocessor ((begin_parse P r t)\<lparr>tokens := toks\<rparr>)"

text \<open>\<open>parse\<close>. \<open>None\<close>: the call does not return within the fuel.\<close>

definition parse ::
  "nat \<Rightarrow> (nat \<Rightarrow> real) \<Rightarrow> ScriptParser \<Rightarrow> jsnum \<Rightarrow> jsnum \<Rightarrow> (parse_result \<times> ScriptParser) option" where
  "parse n R P r t =
     (case tokenize (source P) of
        Inl e \<Rightarrow> Some (ContextObject r t, (begin_parse P r t)\<lparr>errors := [e]\<rparr>)
      | Inr toks \<Rightarrow>
          (let P2 = prepare P r t toks
           in case statements n (tokens P2) R 0 (variables P2) of
                Diverge \<Rightarrow> None
              | Raised e V \<Rightarrow> Some (finish (P2\<lparr>variables := V, errors := [e]\<rparr>))
              | Normal p V \<Rightarrow> Some (finish (P2\<lparr>variables := V\<rparr>))))"

section \<open>Sender\<close>

record Sender =
  rate :: jsnum
  parser :: ScriptParser
  scriptContent :: string

definition new_Sender :: "string \<Rightarrow> Sender" where
  "new_Sender content = \<lparr>rate = Fin 0, parser = new_ScriptParser content, scriptContent = content\<rparr>"

definition setScript :: "Sender \<Rightarrow> string \<Rightarrow> Sender" where
  "setScript s content = s\<lparr>scriptContent := content, parser := new_ScriptParser content\<rparr>"

text \<open>\<open>Math.max(0, Math.min(1, rate))\<close>\<close>

definition clamp :: "jsnum \<Rightarrow> jsnum" where
  "clamp v = Math_max (Fin 0) (Math_min (Fin 1) v)"

definition setRate :: "Sender \<Rightarrow> jsnum \<Rightarrow> Sender" where
  "setRate s v = s\<lparr>rate := clamp v\<rparr>"

definition getRate :: "Sender \<Rightarrow> jsnum" where
  "getRate s = rate s"

text \<open>\<open>{success: true, rate}\<close> or \<open>{success: false, errors}\<close>\<close>

datatype calc_result = Success jsnum | Failure "error list"

text \<open>
  \<open>calculate(traffic, params)\<close>, with \<open>params\<close> as the list of its entries. \<open>None\<close>: the
  call does not return within the fuel; \<open>Inl\<close>: it throws. Reading \<open>result.errors.length\<close>
  throws a TypeError when \<open>result\<close> has no field \<open>errors\<close>.
\<close>

definition calculate ::
  "nat \<Rightarrow> (nat \<Rightarrow> real) \<Rightarrow> Sender \<Rightarrow> jsnum \<Rightarrow> (string \<times> jsnum) list
     \<Rightarrow> ((error + calc_result) \<times> Sender) option" where
  "calculate n R s t ps =
     (let P0 = foldl (\<lambda>P (name, val). setVariable P name val) (parser s) ps
      in case parse n R P0 (rate s) t of
           None \<Rightarrow> None
         | Some (ContextObject r' t', P') \<Rightarrow> Some (Inl TypeError, s\<lparr>parser := P'\<rparr>)
         | Some (ResultObject r' errs, P') \<Rightarrow>
             if length errs > 0 then Some (Inr (Failure errs), s\<lparr>parser := P'\<rparr>)
             else Some (Inr (Success (clamp r')), s\<lparr>parser := P', rate := clamp r'\<rparr>))"

text \<open>\<open>Sender.getParams()\<close>: one parse with rate 0 and traffic 0, then the parser's list.\<close>

definition Sender_getParams ::
  "nat \<Rightarrow> (nat \<Rightarrow> real) \<Rightarrow> Sender \<Rightarrow> (Parameter list \<times> Sender) option" where
  "Sender_getParams n R s =
     (case parse n R (parser s) (Fin 0) (Fin 0) of
        None \<Rightarrow> None
      | Some (res, P') \<Rightarrow> Some (getParams P', s\<lparr>parser := P'\<rparr>))"

definition Sender_resetStaticVars :: "Sender \<Rightarrow> Sender" where
  "Sender_resetStaticVars s = s\<lparr>parser := resetStaticVars (parser s)\<rparr>"

section \<open>SimulationEngine\<close>

text \<open>
  A record of the trajectory: the step, the two rates after it and, for a step of the
  loop, the other fields of \<open>stepData\<close> (the first record, of step 0, has none).
\<close>

record step_detail =
  oldX :: jsnum
  oldY :: jsnum
  traffic :: jsnum
  distance :: jsnum
  progress :: jsnum

datatype point = Point (pstep: nat) (px: jsnum) (py: jsnum) (detail: "step_detail option")

text \<open>
  The state of the engine; the animation delay and the three callbacks belong to the
  user interface and are left out.
\<close>

record SimulationEngine =
  senders :: "Sender list"
  duration :: nat
  rtt :: "nat list"
  isRunning :: bool
  currentStep :: nat
  trajectory :: "point list"

definition new_SimulationEngine :: SimulationEngine where
  "new_SimulationEngine =
     \<lparr>senders = [new_Sender [], new_Sender []], duration = 50, rtt = [1, 1],
      isRunning = False, currentStep = 0, trajectory = []\<rparr>"

definition engine_setScript :: "SimulationEngine \<Rightarrow> nat \<Rightarrow> string \<Rightarrow> SimulationEngine" where
  "engine_setScript eng i content =
     eng\<lparr>senders := (senders eng)[i := setScript (senders eng ! i) content]\<rparr>"

text \<open>\<open>Math.max(1, parseInt(v) || dflt)\<close> for an integer \<open>v\<close>\<close>

definition at_least_one :: "int \<Rightarrow> nat \<Rightarrow> nat" where
  "at_least_one v dflt = (if v = 0 then max 1 dflt else nat (max 1 v))"

definition setDuration :: "SimulationEngine \<Rightarrow> int \<Rightarrow> SimulationEngine" where
  "setDuration eng v = eng\<lparr>duration := at_least_one v 50\<rparr>"

definition setRTT :: "SimulationEngine \<Rightarrow> nat \<Rightarrow> int \<Rightarrow> SimulationEngine" where
  "setRTT eng i v = eng\<lparr>rtt := (rtt eng)[i := at_least_one v 1]\<rparr>"

definition setStartPosition :: "SimulationEngine \<Rightarrow> jsnum \<Rightarrow> jsnum \<Rightarrow> SimulationEngine" where
  "setStartPosition eng x y =
     eng\<lparr>senders := (senders eng)[0 := setRate (senders eng ! 0) x, 1 := setRate (senders eng ! 1) y]\<rparr>"

definition reset :: "SimulationEngine \<Rightarrow> SimulationEngine" where
  "reset eng =
     eng\<lparr>isRunning := False, currentStep := 0, trajectory := [],
         senders := map Sender_resetStaticVars (senders eng)\<rparr>"

text \<open>
  The gate \<open>step % this.rtt[i] === 0\<close>. In JavaScript the remainder by zero or by a
  missing entry is NaN, which is not 0.
\<close>

definition gate :: "SimulationEngine \<Rightarrow> nat \<Rightarrow> nat \<Rightarrow> bool" where
  "gate eng step i = (i < length (rtt eng) \<and> rtt eng ! i \<noteq> 0 \<and> step mod (rtt eng ! i) = 0)"

text \<open>
  The loop over the senders within one step, from index \<open>i\<close>. \<open>prms\<close> is the pair
  \<open>(params.sender0, params.sender1)\<close>, \<open>Rs i\<close> the random numbers of the call of sender
  \<open>i\<close>. The result: the exception that left the loop, if any, the engine, and the errors
  collected.
\<close>

function senders_loop ::
  "nat \<Rightarrow> (nat \<Rightarrow> nat \<Rightarrow> real) \<Rightarrow> (string \<times> jsnum) list \<times> (string \<times> jsnum) list \<Rightarrow> nat \<Rightarrow> jsnum
     \<Rightarrow> nat \<Rightarrow> SimulationEngine \<Rightarrow> error list
     \<Rightarrow> (error option \<times> SimulationEngine \<times> error list) option" where
  "senders_loop n Rs prms step t i eng errs =
     (if i < length (senders eng) then
        (if gate eng step i then
           (case calculate n (Rs i) (senders eng ! i) t (if i = 0 then fst prms else snd prms) of
              None \<Rightarrow> None
            | Some (Inl e, s') \<Rightarrow> Some (Some e, eng\<lparr>senders := (senders eng)[i := s']\<rparr>, errs)
            | Some (Inr res, s') \<Rightarrow>
                senders_loop n Rs prms step t (i + 1) (eng\<lparr>senders := (senders eng)[i := s']\<rparr>)
                  (case res of Failure es \<Rightarrow> errs @ es | Success v \<Rightarrow> errs))
         else senders_loop n Rs prms step t (i + 1) eng errs)
      else Some (None, eng, errs))"
  by pat_completeness auto
termination
  by (relation "measure (\<lambda>(n, Rs, prms, step, t, i, eng, errs). length (senders eng) - i)") auto

declare senders_loop.simps [simp del]

text \<open>\<open>Math.sqrt(Math.pow(0.5 - x, 2) + Math.pow(0.5 - y, 2))\<close>\<close>

definition distance_from_optimum :: "jsnum \<Rightarrow> jsnum \<Rightarrow> jsnum" where
  "distance_from_optimum x y =
     Math_sqrt (jadd (Math_pow (jsub (Fin (1 / 2)) x) (Fin 2)) (Math_pow (jsub (Fin (1 / 2)) y) (Fin 2)))"

text \<open>One iteration of the loop of \<open>run\<close>, up to the push on the trajectory.\<close>

definition run_step ::
  "nat \<Rightarrow> (nat \<Rightarrow> nat \<Rightarrow> real) \<Rightarrow> (string \<times> jsnum) list \<times> (string \<times> jsnum) list \<Rightarrow> nat
     \<Rightarrow> SimulationEngine \<Rightarrow> (error option \<times> SimulationEngine) option" where
  "run_step n Rs prms step eng0 =
     (let eng = eng0\<lparr>currentStep := step\<rparr>;
          old0 = getRate (senders eng ! 0);
          old1 = getRate (senders eng ! 1);
          t = jadd old0 old1
      in case senders_loop n Rs prms step t 0 eng [] of
           None \<Rightarrow> None
         | Some (Some e, eng', errs) \<Rightarrow> Some (Some e, eng')
         | Some (None, eng', errs) \<Rightarrow>
             (let newX = getRate (senders eng' ! 0);
                  newY = getRate (senders eng' ! 1);
                  stepData = Point step newX newY
                    (Some \<lparr>oldX = old0, oldY = old1, traffic = jadd newX newY,
                           distance = distance_from_optimum newX newY,
                           progress = jdiv (Fin (real step)) (Fin (real (duration eng')))\<rparr>)
              in Some (None, eng'\<lparr>trajectory := trajectory eng' @ [stepData]\<rparr>)))"

text \<open>
  The loop of \<open>run\<close> from \<open>step\<close> on, with the duration \<open>d\<close> (nothing in the loop
  changes it). The loop is suspended after every step; \<open>stop k\<close> says that \<open>stop()\<close>
  was called while it was suspended after step \<open>k\<close>. The result is the exception that
  ended the run, if any, and the engine; \<open>None\<close> when a call of a sender does not return.
\<close>

function run_loop ::
  "nat \<Rightarrow> (nat \<Rightarrow> nat \<Rightarrow> nat \<Rightarrow> real) \<Rightarrow> (nat \<Rightarrow> bool) \<Rightarrow> (string \<times> jsnum) list \<times> (string \<times> jsnum) list
     \<Rightarrow> nat \<Rightarrow> nat \<Rightarrow> SimulationEngine \<Rightarrow> (error option \<times> SimulationEngine) option" where
  "run_loop n R stop prms d step eng =
     (if step \<le> d \<and> isRunning eng then
        (case run_step n (R step) prms step eng of
           None \<Rightarrow> None
         | Some (Some e, eng') \<Rightarrow> Some (Some e, eng')
         | Some (None, eng') \<Rightarrow>
             run_loop n R stop prms d (step + 1)
               (if stop step then eng'\<lparr>isRunning := False\<rparr> else eng'))
      else Some (None, eng\<lparr>isRunning := False\<rparr>))"
  by pat_completeness auto
termination
  by (relation "measure (\<lambda>(n, R, stop, prms, d, step, eng). Suc d - step)") auto

declare run_loop.simps [simp del]

definition run ::
  "nat \<Rightarrow> (nat \<Rightarrow> nat \<Rightarrow> nat \<Rightarrow> real) \<Rightarrow> (nat \<Rightarrow> bool) \<Rightarrow> SimulationEngine
     \<Rightarrow> (string \<times> jsnum) list \<times> (string \<times> jsnum) list \<Rightarrow> (error option \<times> SimulationEngine) option" where
  "run n R stop eng0 prms =
     (if isRunning eng0 then Some (None, eng0)
      else
        let eng = eng0\<lparr>isRunning := True, currentStep := 0, trajectory := [],
                       senders := map Sender_resetStaticVars (senders eng0)\<rparr>;
            startX = getRate (senders eng ! 0);
            startY = getRate (senders eng ! 1)
        in run_loop n R stop prms (duration eng) 1
             (eng\<lparr>trajectory := trajectory eng @ [Point 0 startX startY None]\<rparr>))"

section \<open>Example scripts\<close>

text \<open>
  A script that counts its runs in the static variable \<open>c\<close> and sets the rate to a
  tenth of the count.
\<close>

definition counter_script :: string where
  "counter_script = ''#define_var c 0\<newline>c = c + 1;\<newline>rate = c / 10;''"

text \<open>
  The sender with this script, the rate \<open>r\<close> and the counter \<open>c\<close>, as a call with the
  traffic \<open>t\<close> leaves it.
\<close>

definition counter_sender :: "jsnum \<Rightarrow> jsnum \<Rightarrow> real \<Rightarrow> Sender" where
  "counter_sender r t c =
     \<lparr>rate = r,
      parser =
        \<lparr>source = counter_script,
         tokens =
           [Token NAME (VStr ''c'') 2, Token ASSIGN (VStr ''='') 2, Token NAME (VStr ''c'') 2,
            Token OPERATOR (VStr ''+'') 2, Token NUMBER (VNum (Fin 1)) 2,
            Token SEMICOLON (VStr '';'') 2,
            Token NAME (VStr ''rate'') 3, Token ASSIGN (VStr ''='') 3, Token NAME (VStr ''c'') 3,
            Token OPERATOR (VStr ''/'') 3, Token NUMBER (VNum (Fin 10)) 3,
            Token SEMICOLON (VStr '';'') 3, Token EOF VNull 3],
         variables =
           [''traffic'' \<mapsto> t, ''pi'' \<mapsto> Fin pi, ''e'' \<mapsto> Fin (exp 1), ''c'' \<mapsto> Fin c,
            ''rate'' \<mapsto> Fin (c / 10)],
         staticVariables = [''c'' \<mapsto> Fin c],
         params = [\<lparr>pname = ''c'', pmin = None, pmax = None, pdefault = Fin 0, isStatic = True\<rparr>],
         errors = []\<rparr>,
      scriptContent = counter_script\<rparr>"

text \<open>The same counter, followed by a division by zero; and the tokens of this script.\<close>

definition counter_fail_script :: string where
  "counter_fail_script = ''#define_var c 0\<newline>c = c + 1;\<newline>rate = 1 / 0;''"

definition counter_fail_tokens :: "Token list" where
  "counter_fail_tokens =
     [Token PREPROCESSOR (VStr ''#define_var c 0'') 1,
      Token NAME (VStr ''c'') 2, Token ASSIGN (VStr ''='') 2, Token NAME (VStr ''c'') 2,
      Token OPERATOR (VStr ''+'') 2, Token NUMBER (VNum (Fin 1)) 2, Token SEMICOLON (VStr '';'') 2,
      Token NAME (VStr ''rate'') 3, Token ASSIGN (VStr ''='') 3, Token NUMBER (VNum (Fin 1)) 3,
      Token OPERATOR (VStr ''/'') 3, Token NUMBER (VNum (Fin 0)) 3, Token SEMICOLON (VStr '';'') 3,
      Token EOF VNull 3]"

text \<open>The tokens of \<open>1 || 1 / 0\<close> and of \<open>0 && 5\<close>.\<close>

definition or_throw_tokens :: "Token list" where
  "or_throw_tokens =
     [Token NUMBER (VNum (Fin 1)) 1, Token OPERATOR (VStr ''||'') 1, Token NUMBER (VNum (Fin 1)) 1,
      Token OPERATOR (VStr ''/'') 1, Token NUMBER (VNum (Fin 0)) 1, Token EOF VNull 1]"

definition and_tokens :: "Token list" where
  "and_tokens =
     [Token NUMBER (VNum (Fin 0)) 1, Token OPERATOR (VStr ''&&'') 1, Token NUMBER (VNum (Fin 5)) 1,
      Token EOF VNull 1]"





text \<open>
  A script that adds 0.1 to the rate, and an engine with two senders that run it, the
  round trip times 1 and 2, four steps and the start position (0.1, 0.2).
\<close>

definition increase_script :: string where
  "increase_script = ''rate = rate + 0.1;''"

definition gating_engine :: SimulationEngine where
  "gating_engine =
     setStartPosition
       (setRTT (setRTT (setDuration
          (engine_setScript (engine_setScript new_SimulationEngine 0 increase_script) 1 increase_script)
          4) 0 1) 1 2)
       (Fin (1 / 10)) (Fin (2 / 10))"

section \<open>Predicates of the properties\<close>




text \<open>The property of a trajectory \<open>tr\<close> under the gates of the engine \<open>eng\<close>.\<close>

definition gated :: "SimulationEngine \<Rightarrow> point list \<Rightarrow> bool" where
  "gated eng tr =
     (\<forall>k. 1 \<le> k \<and> k < length tr \<longrightarrow>
        pstep (tr ! k) = k
        \<and> (\<not> gate eng k 0 \<longrightarrow> px (tr ! k) = px (tr ! (k - 1)))
        \<and> (\<not> gate eng k 1 \<longrightarrow> py (tr ! k) = py (tr ! (k - 1))))"

section \<open>Evaluation\<close>

text \<open>The equations that evaluate the tokenizer, the patterns and the parser on a given text.\<close>

lemmas tok_simps = tokenize_def tokenize_loop.simps tokenize_step_def
  skipWhitespaceAndComments.simps skipLineComment.simps readNumber_loop.simps readNumber_def
  readName_loop.simps readName_def readPreprocessor_def tryReadOperator_def punctuation_def
  OPERATORS_def KEYWORDS_def isDigit_def isAlpha_def isAlphaNumeric_def isSpace_def peek_def
  substring_def trim_def toLowerCase_def lower_char_def TAB_def LF_def CR_def Let_def
  parseFloat_def unsigned_decimal_def exponent_part_def digits_val_def digit_val_def pow10_def

lemmas rx_simps = str_match_def define_param_re_def define_var_re_def run_lengths_def upt_rec

lemmas parse_simps = current_def previous_def isAtEnd_def advance_def check_def
  matchOperator_def expect_def bool_num_def zero_def one_def jgt_def jeq_def jle_def jge_def
  jsub_def truthy_def arg_def BUILTIN_FUNCTIONS_def CONSTANTS_def expecting_def evaluating_def
  assignment_def at_else_def skipBlock.simps toLowerCase_def lower_char_def Let_def
  eval_nat_numeral

lemmas top_simps = parse_def prepare_def begin_parse_def processPreprocessor_def
  handlePreprocessor_def define_param_def define_var_def finish_def save_static_def
  rate_or_zero_def calculate_def new_Sender_def new_ScriptParser_def setVariable_def clamp_def
  Math_min_def Math_max_def Sender_getParams_def getParams_def

lemmas engine_simps = run_def run_loop.simps run_step_def senders_loop.simps gate_def
  gating_engine_def increase_script_def setStartPosition_def setRTT_def setDuration_def
  at_least_one_def engine_setScript_def setScript_def new_SimulationEngine_def setRate_def
  getRate_def Sender_resetStaticVars_def resetStaticVars_def distance_from_optimum_def
  fin_pow_def is_int_def mod_Suc

section \<open>The rate of a sender\<close>








section \<open>Lexical errors\<close>

text \<open>
  Claim C3 at the script \<open>rate = 1 @ 2;\<close>. The tokenizer throws on \<open>@\<close>; \<open>parse\<close>
  records the error in the parser and returns the context object it was given, with the
  rate unmodified and with no field \<open>errors\<close>; \<open>calculate\<close>, which reads
  \<open>result.errors.length\<close>, then throws a TypeError.
\<close>

theorem lexical_error_returns_context:
  "parse n R (new_ScriptParser ''rate = 1 @ 2;'') r t
     = Some (ContextObject r t,
         (begin_parse (new_ScriptParser ''rate = 1 @ 2;'') r t)
           \<lparr>errors := [UnexpectedCharacter (CHR ''@'') 1]\<rparr>)
   \<and> map_option fst (calculate n R (new_Sender ''rate = 1 @ 2;'') t []) = Some (Inl TypeError)"
  by (simp add: parse_def calculate_def new_Sender_def new_ScriptParser_def tok_simps)

section \<open>Division and remainder by zero\<close>

text \<open>
  Claim C4 at the scripts \<open>rate = 1 % 0;\<close> and \<open>rate = 1 / 0;\<close>. The division throws
  \<open>Division by zero\<close>; the remainder throws nothing: it is NaN, the script runs to its
  end and \<open>calculate\<close> succeeds (with the rate 0, by \<open>|| 0\<close>).
\<close>

theorem modulo_by_zero_no_error:
  "map_option fst (calculate 40 R (new_Sender ''rate = 1 % 0;'') (Fin (1 / 2)) [])
     = Some (Inr (Success (Fin 0)))
   \<and> map_option fst (calculate 40 R (new_Sender ''rate = 1 / 0;'') (Fin (1 / 2)) [])
     = Some (Inr (Failure [DivisionByZero]))"
  by (simp add: top_simps tok_simps rx_simps parse_simps)

section \<open>Errors of a script\<close>

lemma begin_parse_setVariable: "begin_parse (setVariable P name v) r t = begin_parse P r t"
  by (simp add: begin_parse_def setVariable_def)

lemma source_setVariable: "source (setVariable P name v) = source P"
  by (simp add: setVariable_def)

lemma prepare_setVariable: "prepare (setVariable P name v) r t toks = prepare P r t toks"
  by (simp add: prepare_def begin_parse_setVariable)

lemma parse_setVariable: "parse n R (setVariable P name v) r t = parse n R P r t"
  unfolding parse_def prepare_setVariable begin_parse_setVariable source_setVariable
  by (rule refl)

lemma parse_setVariables:
  "parse n R (foldl (\<lambda>P (name, val). setVariable P name val) P ps) r t = parse n R P r t"
  by (induction ps arbitrary: P) (auto simp: parse_setVariable)

text \<open>
  \<open>parse\<close> builds the variables anew, so what \<open>setVariable\<close> stored before the call
  is lost: the parameter values passed to \<open>calculate\<close> never reach the script.
\<close>

lemma calculate_ignores_params: "calculate n R s t ps = calculate n R s t []"
  by (simp add: calculate_def parse_setVariables)

lemma parse_Raised:
  assumes "tokenize (source P) = Inr toks"
    and "statements n (tokens (prepare P r t toks)) R 0 (variables (prepare P r t toks)) = Raised e V"
  shows "parse n R P r t = Some (finish ((prepare P r t toks)\<lparr>variables := V, errors := [e]\<rparr>))"
  using assms by (simp add: parse_def)

lemma calculate_Raised:
  assumes "tokenize (source (parser s)) = Inr toks"
    and "statements n (tokens (prepare (parser s) (rate s) t toks)) R 0
           (variables (prepare (parser s) (rate s) t toks)) = Raised e V"
  shows "calculate n R s t ps
     = Some (Inr (Failure [e]),
         s\<lparr>parser := save_static ((prepare (parser s) (rate s) t toks)\<lparr>variables := V, errors := [e]\<rparr>)\<rparr>)"
proof -
  have "calculate n R s t ps = calculate n R s t []"
    by (rule calculate_ignores_params)
  also have "\<dots> = Some (Inr (Failure [e]),
         s\<lparr>parser := save_static ((prepare (parser s) (rate s) t toks)\<lparr>variables := V, errors := [e]\<rparr>)\<rparr>)"
    using parse_Raised [OF assms] by (simp add: calculate_def finish_def)
  finally show ?thesis .
qed

text \<open>
  Claim C5. When the text of the script tokenizes and the execution of its statements
  throws an error \<open>e\<close> (a division by zero, an undefined variable, or any other error
  of the parser), \<open>calculate\<close> returns a failure whose error list is exactly \<open>[e]\<close>,
  and the rate of the sender is what it was before the call.
\<close>

theorem calculate_error_one_message:
  assumes "tokenize (source (parser s)) = Inr toks"
    and "statements n (tokens (prepare (parser s) (rate s) t toks)) R 0
           (variables (prepare (parser s) (rate s) t toks)) = Raised e V"
  shows "\<exists>s'. calculate n R s t ps = Some (Inr (Failure [e]), s') \<and> rate s' = rate s"
  using calculate_Raised [OF assms] by simp

text \<open>Every failure that \<open>calculate\<close> returns has one message and keeps the rate.\<close>

lemma finish_errors: "finish P = (ResultObject v errs, P') \<Longrightarrow> errs = errors P"
  by (auto simp: finish_def)

lemma errors_handlePreprocessor: "errors (handlePreprocessor d P) = errors P"
  by (simp add: handlePreprocessor_def define_param_def define_var_def Let_def
      split: option.splits list.splits)

lemma errors_foldl_handle:
  "errors (foldl (\<lambda>Q token.
      if ttype token = PREPROCESSOR then handlePreprocessor (text_of (tvalue token)) Q else Q) P ts)
     = errors P"
  by (induction ts arbitrary: P) (auto simp: errors_handlePreprocessor)

lemma errors_prepare: "errors (prepare P r t toks) = []"
  by (simp add: prepare_def processPreprocessor_def Let_def errors_foldl_handle begin_parse_def)

lemma parse_errors_le_1:
  assumes "parse n R P r t = Some (ResultObject v errs, P')"
  shows "length errs \<le> 1"
  using assms
  by (auto simp: parse_def Let_def errors_prepare split: sum.splits exec.splits dest!: finish_errors)

lemma calculate_Failure:
  assumes "calculate n R s t ps = Some (Inr (Failure errs), s')"
  shows "length errs = 1 \<and> rate s' = rate s"
proof -
  from assms have c: "calculate n R s t [] = Some (Inr (Failure errs), s')"
    by (simp add: calculate_ignores_params [of n R s t ps])
  then obtain v P' where p: "parse n R (parser s) (rate s) t = Some (ResultObject v errs, P')"
    and l: "0 < length errs" and s': "s' = s\<lparr>parser := P'\<rparr>"
    by (auto simp: calculate_def split: option.splits parse_result.splits if_splits)
  from parse_errors_le_1 [OF p] l s' show ?thesis by (cases errs) auto
qed


text \<open>
  The scripts \<open>rate = 1 / 0;\<close> and \<open>rate = x;\<close>, run by a sender with the rate 0.3.
\<close>

theorem calculate_error_one_message_witness:
  "(let s = setRate (new_Sender ''rate = 1 / 0;'') (Fin (3 / 10));
        toks = [Token NAME (VStr ''rate'') 1, Token ASSIGN (VStr ''='') 1,
                Token NUMBER (VNum (Fin 1)) 1, Token OPERATOR (VStr ''/'') 1,
                Token NUMBER (VNum (Fin 0)) 1, Token SEMICOLON (VStr '';'') 1, Token EOF VNull 1];
        P2 = prepare (parser s) (rate s) (Fin (1 / 2)) toks
    in tokenize (source (parser s)) = Inr toks
       \<and> statements 40 (tokens P2) (\<lambda>_. 0) 0 (variables P2) = Raised DivisionByZero (variables P2)
       \<and> (\<exists>s'. calculate 40 (\<lambda>_. 0) s (Fin (1 / 2)) [] = Some (Inr (Failure [DivisionByZero]), s')
              \<and> rate s' = Fin (3 / 10)))
   \<and> (let s = setRate (new_Sender ''rate = x;'') (Fin (3 / 10));
        toks = [Token NAME (VStr ''rate'') 1, Token ASSIGN (VStr ''='') 1,
                Token NAME (VStr ''x'') 1, Token SEMICOLON (VStr '';'') 1, Token EOF VNull 1];
        P2 = prepare (parser s) (rate s) (Fin (1 / 2)) toks
    in tokenize (source (parser s)) = Inr toks
       \<and> statements 40 (tokens P2) (\<lambda>_. 0) 0 (variables P2)
           = Raised (UndefinedVariable ''x'' 1) (variables P2)
       \<and> (\<exists>s'. calculate 40 (\<lambda>_. 0) s (Fin (1 / 2)) [] = Some (Inr (Failure [UndefinedVariable ''x'' 1]), s')
              \<and> rate s' = Fin (3 / 10)))"
proof -
  let ?s = "setRate (new_Sender ''rate = 1 / 0;'') (Fin (3 / 10))"
  let ?toks = "[Token NAME (VStr ''rate'') 1, Token ASSIGN (VStr ''='') 1,
                Token NUMBER (VNum (Fin 1)) 1, Token OPERATOR (VStr ''/'') 1,
                Token NUMBER (VNum (Fin 0)) 1, Token SEMICOLON (VStr '';'') 1, Token EOF VNull 1]"
  let ?P2 = "prepare (parser ?s) (rate ?s) (Fin (1 / 2)) ?toks"
  have r: "rate ?s = Fin (3 / 10)"
    by (simp add: setRate_def clamp_def Math_min_def Math_max_def)
  have t: "tokenize (source (parser ?s)) = Inr ?toks"
    by (simp add: setRate_def new_Sender_def new_ScriptParser_def tok_simps)
  have e: "statements 40 (tokens ?P2) (\<lambda>_. 0) 0 (variables ?P2) = Raised DivisionByZero (variables ?P2)"
    by (simp add: setRate_def top_simps parse_simps)
  let ?s2 = "setRate (new_Sender ''rate = x;'') (Fin (3 / 10))"
  let ?toks2 = "[Token NAME (VStr ''rate'') 1, Token ASSIGN (VStr ''='') 1,
                Token NAME (VStr ''x'') 1, Token SEMICOLON (VStr '';'') 1, Token EOF VNull 1]"
  let ?Q2 = "prepare (parser ?s2) (rate ?s2) (Fin (1 / 2)) ?toks2"
  have r2: "rate ?s2 = Fin (3 / 10)"
    by (simp add: setRate_def clamp_def Math_min_def Math_max_def)
  have t2: "tokenize (source (parser ?s2)) = Inr ?toks2"
    by (simp add: setRate_def new_Sender_def new_ScriptParser_def tok_simps)
  have e2: "statements 40 (tokens ?Q2) (\<lambda>_. 0) 0 (variables ?Q2)
      = Raised (UndefinedVariable ''x'' 1) (variables ?Q2)"
    by (simp add: setRate_def top_simps parse_simps)
  from calculate_error_one_message [OF t e, of "[]"] calculate_error_one_message [OF t2 e2, of "[]"]
    t e t2 e2 r r2
  show ?thesis unfolding Let_def by simp
qed

section \<open>Static variables across an error\<close>

lemma foldl_save:
  "foldl (\<lambda>S param. S(pname param := V (pname param))) S0 ps x
     = (if x \<in> pname ` set ps then V x else S0 x)"
  by (induction ps arbitrary: S0) auto

lemma save_static_at:
  "prm \<in> set (params P) \<Longrightarrow> isStatic prm
     \<Longrightarrow> staticVariables (save_static P) (pname prm) = variables P (pname prm)"
  by (auto simp: save_static_def foldl_save)

text \<open>
  Claim C10. When the statements of a script throw \<open>e\<close> with the variables \<open>V\<close> (the
  variables as the assignments executed before the throw left them), the failed
  \<open>calculate\<close> keeps the rate of the sender, the parser keeps \<open>V\<close>, and the value in
  \<open>V\<close> of every static parameter is written into the static store, from where the next
  call reads it.
\<close>

theorem error_keeps_static_updates:
  assumes "tokenize (source (parser s)) = Inr toks"
    and "statements n (tokens (prepare (parser s) (rate s) t toks)) R 0
           (variables (prepare (parser s) (rate s) t toks)) = Raised e V"
  shows "\<exists>s'. calculate n R s t ps = Some (Inr (Failure [e]), s') \<and> rate s' = rate s
           \<and> variables (parser s') = V
           \<and> params (parser s') = params (prepare (parser s) (rate s) t toks)
           \<and> (\<forall>prm \<in> set (params (parser s')).
                 isStatic prm \<longrightarrow> staticVariables (parser s') (pname prm) = V (pname prm))"
proof -
  let ?P = "(prepare (parser s) (rate s) t toks)\<lparr>variables := V, errors := [e]\<rparr>"
  have "\<forall>prm \<in> set (params (save_static ?P)).
          isStatic prm \<longrightarrow> staticVariables (save_static ?P) (pname prm) = V (pname prm)"
    using save_static_at [of _ ?P] by (simp add: save_static_def)
  with calculate_Raised [OF assms, of ps] show ?thesis
    by (simp add: save_static_def)
qed

text \<open>
  A sender with the rate 0.3 runs a script that declares the static variable \<open>c\<close>,
  increments it and then divides by zero: the call fails, the rate stays 0.3 and the
  static store holds \<open>c = 1\<close>; the next call starts from it and leaves \<open>c = 2\<close>.
\<close>

theorem error_keeps_static_updates_witness:
  "(let s = setRate (new_Sender counter_fail_script) (Fin (3 / 10));
        P2 = prepare (parser s) (rate s) (Fin (1 / 2)) counter_fail_tokens
    in tokenize (source (parser s)) = Inr counter_fail_tokens
       \<and> statements 60 (tokens P2) (\<lambda>_. 0) 0 (variables P2)
           = Raised DivisionByZero ((variables P2)(''c'' \<mapsto> Fin 1))
       \<and> (\<exists>s'. calculate 60 (\<lambda>_. 0) s (Fin (1 / 2)) [] = Some (Inr (Failure [DivisionByZero]), s')
              \<and> rate s' = Fin (3 / 10)
              \<and> variables (parser s') ''c'' = Some (Fin 1)
              \<and> staticVariables (parser s') ''c'' = Some (Fin 1)
              \<and> staticVariables (parser (snd (the (calculate 60 (\<lambda>_. 0) s' (Fin (1 / 2)) [])))) ''c''
                  = Some (Fin 2)))"
proof -
  let ?s = "setRate (new_Sender counter_fail_script) (Fin (3 / 10))"
  let ?P2 = "prepare (parser ?s) (rate ?s) (Fin (1 / 2)) counter_fail_tokens"
  have r: "rate ?s = Fin (3 / 10)"
    by (simp add: setRate_def clamp_def Math_min_def Math_max_def)
  have t: "tokenize (source (parser ?s)) = Inr counter_fail_tokens"
    by (simp add: setRate_def new_Sender_def new_ScriptParser_def counter_fail_script_def
        counter_fail_tokens_def tok_simps)
  have p: "params ?P2 = [\<lparr>pname = ''c'', pmin = None, pmax = None, pdefault = Fin 0, isStatic = True\<rparr>]"
    by (simp add: setRate_def top_simps counter_fail_tokens_def rx_simps tok_simps)
  have e: "statements 60 (tokens ?P2) (\<lambda>_. 0) 0 (variables ?P2)
      = Raised DivisionByZero ((variables ?P2)(''c'' \<mapsto> Fin 1))"
    by (simp add: setRate_def top_simps counter_fail_tokens_def rx_simps tok_simps parse_simps)
  have n: "staticVariables (parser (snd (the (calculate 60 (\<lambda>_. 0)
        (snd (the (calculate 60 (\<lambda>_. 0) ?s (Fin (1 / 2)) []))) (Fin (1 / 2)) [])))) ''c'' = Some (Fin 2)"
    by (simp add: setRate_def counter_fail_script_def top_simps rx_simps tok_simps parse_simps)
  from error_keeps_static_updates [OF t e, of "[]"] obtain s' where
    c: "calculate 60 (\<lambda>_. 0) ?s (Fin (1 / 2)) [] = Some (Inr (Failure [DivisionByZero]), s')"
    and r': "rate s' = rate ?s"
    and v: "variables (parser s') = (variables ?P2)(''c'' \<mapsto> Fin 1)"
    and ps: "params (parser s') = params ?P2"
    and st: "\<forall>prm \<in> set (params (parser s')).
        isStatic prm \<longrightarrow> staticVariables (parser s') (pname prm) = ((variables ?P2)(''c'' \<mapsto> Fin 1)) (pname prm)"
    by blast
  from st ps p have "staticVariables (parser s') ''c'' = Some (Fin 1)" by simp
  moreover from n c have "staticVariables (parser (snd (the (calculate 60 (\<lambda>_. 0) s' (Fin (1 / 2)) [])))) ''c''
      = Some (Fin 2)" by simp
  ultimately show ?thesis
    using c r r' v t e unfolding Let_def by auto
qed

section \<open>The counter script\<close>

lemmas counter_simps = counter_script_def counter_sender_def Sender_resetStaticVars_def
  resetStaticVars_def top_simps tok_simps rx_simps parse_simps

lemma counter_first:
  "calculate 60 R (new_Sender counter_script) (Fin (1 / 2)) []
     = Some (Inr (Success (Fin (1 / 10))), counter_sender (Fin (1 / 10)) (Fin (1 / 2)) 1)"
  by (simp add: counter_simps)

lemma counter_second:
  "calculate 60 R (counter_sender r t 1) (Fin (1 / 2)) []
     = Some (Inr (Success (Fin (2 / 10))), counter_sender (Fin (2 / 10)) (Fin (1 / 2)) 2)"
  by (simp add: counter_simps)

lemma counter_third:
  "calculate 60 R (counter_sender r t 2) (Fin (1 / 2)) []
     = Some (Inr (Success (Fin (3 / 10))), counter_sender (Fin (3 / 10)) (Fin (1 / 2)) 3)"
  by (simp add: counter_simps)

lemma counter_getParams:
  "Sender_getParams 60 R (counter_sender r t 1)
     = Some ([\<lparr>pname = ''c'', pmin = None, pmax = None, pdefault = Fin 0, isStatic = True\<rparr>],
             counter_sender r (Fin 0) 2)"
  by (simp add: counter_simps)



section \<open>Directives\<close>



section \<open>\<open>getParams\<close>\<close>

text \<open>\<open>getParams()\<close> never changes the rate of the sender.\<close>

lemma getParams_keeps_rate: "Sender_getParams n R s = Some (ps, s') \<Longrightarrow> rate s' = rate s"
  by (auto simp: Sender_getParams_def split: option.splits)

text \<open>
  Claim C2 at the counter script. After one call of \<open>calculate\<close> the sender has the rate
  0.1 and the static store holds \<open>c = 1\<close>; a second call returns 0.2. \<open>getParams()\<close> in
  between keeps the rate but runs the script once more: the static store then holds
  \<open>c = 2\<close>, and the second call, with the same arguments, returns 0.3.
\<close>

theorem getParams_changes_static_store:
  "calculate 60 R (new_Sender counter_script) (Fin (1 / 2)) []
     = Some (Inr (Success (Fin (1 / 10))), counter_sender (Fin (1 / 10)) (Fin (1 / 2)) 1)
   \<and> map_option fst (calculate 60 R (counter_sender (Fin (1 / 10)) (Fin (1 / 2)) 1) (Fin (1 / 2)) [])
     = Some (Inr (Success (Fin (2 / 10))))
   \<and> map_option snd (Sender_getParams 60 R (counter_sender (Fin (1 / 10)) (Fin (1 / 2)) 1))
     = Some (counter_sender (Fin (1 / 10)) (Fin 0) 2)
   \<and> rate (counter_sender (Fin (1 / 10)) (Fin 0) 2) = rate (counter_sender (Fin (1 / 10)) (Fin (1 / 2)) 1)
   \<and> staticVariables (parser (counter_sender (Fin (1 / 10)) (Fin (1 / 2)) 1)) ''c'' = Some (Fin 1)
   \<and> staticVariables (parser (counter_sender (Fin (1 / 10)) (Fin 0) 2)) ''c'' = Some (Fin 2)
   \<and> map_option fst (calculate 60 R (counter_sender (Fin (1 / 10)) (Fin 0) 2) (Fin (1 / 2)) [])
     = Some (Inr (Success (Fin (3 / 10))))"
  by (simp add: counter_first counter_second counter_third counter_getParams)
     (simp add: counter_sender_def)

section \<open>Logical operators\<close>

text \<open>
  Claim C8. When the loop of \<open>and\<close> (of \<open>or\<close>) finds the operator \<open>&&\<close> (\<open>||\<close>)
  after a left operand \<open>left\<close>, it evaluates the right operand whatever \<open>left\<close> is:
  an error of the right operand is the error of the whole, and a value \<open>right\<close> makes
  the result exactly 1 when both operands (at least one operand) are greater than 0 and
  exactly 0 otherwise; the loop goes on with this result, and returns it when no such
  operator follows.
\<close>

theorem logical_operators_evaluate_both:
  "(fst (matchOperator T p ''&&'') \<longrightarrow>
      (equality n T V R (snd (matchOperator T p ''&&'')) = Throw e
         \<longrightarrow> and_loop (Suc n) T V R left p = Throw e)
    \<and> (equality n T V R (snd (matchOperator T p ''&&'')) = Return (right, q)
         \<longrightarrow> and_loop (Suc n) T V R left p
             = and_loop n T V R (if jgt left zero \<and> jgt right zero then Fin 1 else Fin 0) q)
    \<and> (equality n T V R (snd (matchOperator T p ''&&'')) = Return (right, q)
          \<and> 0 < n \<and> \<not> fst (matchOperator T q ''&&'')
         \<longrightarrow> and_loop (Suc n) T V R left p
             = Return (if jgt left zero \<and> jgt right zero then Fin 1 else Fin 0, q)))
   \<and> (fst (matchOperator T p ''||'') \<longrightarrow>
      (and_expr n T V R (snd (matchOperator T p ''||'')) = Throw e
         \<longrightarrow> or_loop (Suc n) T V R left p = Throw e)
    \<and> (and_expr n T V R (snd (matchOperator T p ''||'')) = Return (right, q)
         \<longrightarrow> or_loop (Suc n) T V R left p
             = or_loop n T V R (if jgt left zero \<or> jgt right zero then Fin 1 else Fin 0) q)
    \<and> (and_expr n T V R (snd (matchOperator T p ''||'')) = Return (right, q)
          \<and> 0 < n \<and> \<not> fst (matchOperator T q ''||'')
         \<longrightarrow> or_loop (Suc n) T V R left p
             = Return (if jgt left zero \<or> jgt right zero then Fin 1 else Fin 0, q)))"
  by (cases n) (auto simp: bool_num_def zero_def one_def)

text \<open>
  In \<open>1 || 1 / 0\<close> the left operand already decides the result, and the division by
  zero of the right operand is thrown all the same; \<open>0 && 5\<close> is exactly 0 and
  \<open>0.3 || 0\<close> exactly 1.
\<close>

theorem logical_operators_evaluate_both_witness:
  "fst (matchOperator or_throw_tokens 1 ''||'')
   \<and> and_expr 20 or_throw_tokens Map.empty (\<lambda>_. 0) (snd (matchOperator or_throw_tokens 1 ''||''))
       = Throw DivisionByZero
   \<and> jgt (Fin 1) zero
   \<and> or_loop 21 or_throw_tokens Map.empty (\<lambda>_. 0) (Fin 1) 1 = Throw DivisionByZero
   \<and> fst (matchOperator and_tokens 1 ''&&'')
   \<and> equality 20 and_tokens Map.empty (\<lambda>_. 0) (snd (matchOperator and_tokens 1 ''&&''))
       = Return (Fin 5, 3)
   \<and> \<not> fst (matchOperator and_tokens 3 ''&&'')
   \<and> and_loop 21 and_tokens Map.empty (\<lambda>_. 0) (Fin 0) 1 = Return (Fin 0, 3)
   \<and> map_option fst (calculate 40 (\<lambda>_. 0) (new_Sender ''rate = 1 || 1 / 0;'') (Fin (1 / 2)) [])
       = Some (Inr (Failure [DivisionByZero]))
   \<and> map_option fst (calculate 40 (\<lambda>_. 0) (new_Sender ''rate = 0 && 1 / 0;'') (Fin (1 / 2)) [])
       = Some (Inr (Failure [DivisionByZero]))
   \<and> map_option fst (calculate 40 (\<lambda>_. 0) (new_Sender ''rate = 0.3 || 0;'') (Fin (1 / 2)) [])
       = Some (Inr (Success (Fin 1)))"
proof -
  have m1: "fst (matchOperator or_throw_tokens 1 ''||'')"
    by (simp add: or_throw_tokens_def parse_simps)
  have e1: "and_expr 20 or_throw_tokens Map.empty (\<lambda>_. 0) (snd (matchOperator or_throw_tokens 1 ''||''))
      = Throw DivisionByZero"
    by (simp add: or_throw_tokens_def parse_simps)
  have m2: "fst (matchOperator and_tokens 1 ''&&'')"
    by (simp add: and_tokens_def parse_simps)
  have e2: "equality 20 and_tokens Map.empty (\<lambda>_. 0) (snd (matchOperator and_tokens 1 ''&&''))
      = Return (Fin 5, 3)"
    by (simp add: and_tokens_def parse_simps)
  have m3: "\<not> fst (matchOperator and_tokens 3 ''&&'')"
    by (simp add: and_tokens_def parse_simps)
  have c: "map_option fst (calculate 40 (\<lambda>_. 0) (new_Sender ''rate = 1 || 1 / 0;'') (Fin (1 / 2)) [])
       = Some (Inr (Failure [DivisionByZero]))"
    "map_option fst (calculate 40 (\<lambda>_. 0) (new_Sender ''rate = 0 && 1 / 0;'') (Fin (1 / 2)) [])
       = Some (Inr (Failure [DivisionByZero]))"
    "map_option fst (calculate 40 (\<lambda>_. 0) (new_Sender ''rate = 0.3 || 0;'') (Fin (1 / 2)) [])
       = Some (Inr (Success (Fin 1)))"
    by (simp_all add: top_simps tok_simps rx_simps parse_simps)
  have j: "jgt (Fin 1) zero" "\<not> jgt (Fin 0) zero"
    by (simp_all add: jgt_def zero_def)
  have n0: "0 < (20::nat)" by simp
  note th = logical_operators_evaluate_both
  from th [where T = or_throw_tokens and p = 1 and n = 20 and V = Map.empty and R = "\<lambda>_. 0"
      and e = DivisionByZero and left = "Fin 1" and right = "Fin 1" and q = 0] m1 e1
  have "or_loop (Suc 20) or_throw_tokens Map.empty (\<lambda>_. 0) (Fin 1) 1 = Throw DivisionByZero"
    by blast
  then have o: "or_loop 21 or_throw_tokens Map.empty (\<lambda>_. 0) (Fin 1) 1 = Throw DivisionByZero"
    by simp
  from th [where T = and_tokens and p = 1 and n = 20 and V = Map.empty and R = "\<lambda>_. 0"
      and right = "Fin 5" and q = 3 and left = "Fin 0" and e = DivisionByZero] m2 e2 m3 n0
  have "and_loop (Suc 20) and_tokens Map.empty (\<lambda>_. 0) (Fin 0) 1
      = Return (if jgt (Fin 0) zero \<and> jgt (Fin 5) zero then Fin 1 else Fin 0, 3)"
    by blast
  with j have a: "and_loop 21 and_tokens Map.empty (\<lambda>_. 0) (Fin 0) 1 = Return (Fin 0, 3)"
    by simp
  from m1 e1 m2 e2 m3 c j o a show ?thesis by simp
qed

section \<open>Conditionals\<close>





section \<open>The gates of the round trip times\<close>

lemma gate_cong: "rtt a = rtt b \<Longrightarrow> gate a step i = gate b step i"
  by (simp add: gate_def)

lemma senders_loop_frame:
  assumes "senders_loop n Rs prms step t i eng errs = Some (exn, eng', errs')"
  shows "rtt eng' = rtt eng \<and> duration eng' = duration eng \<and> trajectory eng' = trajectory eng
         \<and> isRunning eng' = isRunning eng \<and> length (senders eng') = length (senders eng)"
  using assms
proof (induction n Rs prms step t i eng errs rule: senders_loop.induct)
  case (1 n Rs prms step t i eng errs)
  show ?case
  proof (cases "i < length (senders eng)")
    case False
    with 1(3) show ?thesis by (simp add: senders_loop.simps)
  next
    case True
    show ?thesis
    proof (cases "gate eng step i")
      case False
      with True 1(3) have "senders_loop n Rs prms step t (i + 1) eng errs = Some (exn, eng', errs')"
        by (simp add: senders_loop.simps)
      from 1(2) [OF True False this] show ?thesis .
    next
      case g: True
      let ?c = "calculate n (Rs i) (senders eng ! i) t (if i = 0 then fst prms else snd prms)"
      from True g 1(3) obtain r s' where c: "?c = Some (r, s')"
        by (subst (asm) senders_loop.simps) (auto split: option.splits)
      show ?thesis
      proof (cases r)
        case (Inl e)
        with True g c 1(3) show ?thesis
          by (subst (asm) senders_loop.simps) auto
      next
        case (Inr res)
        let ?eng1 = "eng\<lparr>senders := (senders eng)[i := s']\<rparr>"
        from True g c Inr 1(3)
        have "senders_loop n Rs prms step t (i + 1) ?eng1
                (case res of Failure es \<Rightarrow> errs @ es | Success v \<Rightarrow> errs) = Some (exn, eng', errs')"
          by (subst (asm) senders_loop.simps) simp
        from 1(1) [OF True g c refl Inr this] show ?thesis by simp
      qed
    qed
  qed
qed


text \<open>What the loop over the senders does to each sender when no call throws.\<close>

lemma senders_loop_senders:
  assumes "senders_loop n Rs prms step t i eng errs = Some (None, eng', errs')"
    and "j < length (senders eng)"
  shows "senders eng' ! j =
     (if i \<le> j \<and> gate eng step j
      then snd (the (calculate n (Rs j) (senders eng ! j) t (if j = 0 then fst prms else snd prms)))
      else senders eng ! j)"
  using assms
proof (induction n Rs prms step t i eng errs rule: senders_loop.induct)
  case (1 n Rs prms step t i eng errs)
  show ?case
  proof (cases "i < length (senders eng)")
    case False
    with 1(3,4) show ?thesis by (simp add: senders_loop.simps)
  next
    case True
    show ?thesis
    proof (cases "gate eng step i")
      case False
      with True 1(3) have "senders_loop n Rs prms step t (i + 1) eng errs = Some (None, eng', errs')"
        by (simp add: senders_loop.simps)
      from 1(2) [OF True False this 1(4)] False show ?thesis
        by (cases "i = j") auto
    next
      case g: True
      let ?c = "calculate n (Rs i) (senders eng ! i) t (if i = 0 then fst prms else snd prms)"
      from True g 1(3) obtain r s' where c: "?c = Some (r, s')"
        by (subst (asm) senders_loop.simps) (auto split: option.splits)
      show ?thesis
      proof (cases r)
        case (Inl e)
        with True g c 1(3) show ?thesis
          by (subst (asm) senders_loop.simps) auto
      next
        case (Inr res)
        let ?eng1 = "eng\<lparr>senders := (senders eng)[i := s']\<rparr>"
        from True g c Inr 1(3)
        have l: "senders_loop n Rs prms step t (i + 1) ?eng1
                (case res of Failure es \<Rightarrow> errs @ es | Success v \<Rightarrow> errs) = Some (None, eng', errs')"
          by (subst (asm) senders_loop.simps) simp
        have j1: "j < length (senders ?eng1)" using 1(4) by simp
        have g1: "gate ?eng1 step j = gate eng step j" by (simp add: gate_def)
        from 1(1) [OF True g c refl Inr l j1] g1 c True g 1(4) show ?thesis
          by (cases "i = j") auto
      qed
    qed
  qed
qed


text \<open>A step that ends normally: the record it appends and the senders it leaves.\<close>

lemma run_step_normal:
  assumes "run_step n Rs prms step eng = Some (None, eng')"
    and "length (senders eng) = 2"
  shows "rtt eng' = rtt eng \<and> duration eng' = duration eng \<and> isRunning eng' = isRunning eng
         \<and> length (senders eng') = 2
         \<and> (\<exists>dt. trajectory eng' = trajectory eng
               @ [Point step (rate (senders eng' ! 0)) (rate (senders eng' ! 1)) dt])
         \<and> (\<forall>j < 2. senders eng' ! j =
               (if gate eng step j
                then snd (the (calculate n (Rs j) (senders eng ! j)
                       (jadd (rate (senders eng ! 0)) (rate (senders eng ! 1)))
                       (if j = 0 then fst prms else snd prms)))
                else senders eng ! j))"
proof -
  let ?eng = "eng\<lparr>currentStep := step\<rparr>"
  let ?t = "jadd (rate (senders eng ! 0)) (rate (senders eng ! 1))"
  from assms(1) obtain eng1 errs where
    l: "senders_loop n Rs prms step ?t 0 ?eng [] = Some (None, eng1, errs)"
    and e: "eng' = eng1\<lparr>trajectory := trajectory eng1
        @ [Point step (rate (senders eng1 ! 0)) (rate (senders eng1 ! 1))
            (Some \<lparr>oldX = rate (senders eng ! 0), oldY = rate (senders eng ! 1),
                   traffic = jadd (rate (senders eng1 ! 0)) (rate (senders eng1 ! 1)),
                   distance = distance_from_optimum (rate (senders eng1 ! 0)) (rate (senders eng1 ! 1)),
                   progress = jdiv (Fin (real step)) (Fin (real (duration eng1)))\<rparr>)]\<rparr>"
    by (auto simp: run_step_def Let_def getRate_def split: option.splits)
  from senders_loop_frame [OF l] have f: "rtt eng1 = rtt eng" "duration eng1 = duration eng"
    "trajectory eng1 = trajectory eng" "isRunning eng1 = isRunning eng"
    "length (senders eng1) = length (senders eng)"
    by simp_all
  have g: "gate ?eng step j = gate eng step j" for j by (simp add: gate_def)
  have "\<forall>j < 2. senders eng1 ! j =
               (if gate eng step j
                then snd (the (calculate n (Rs j) (senders eng ! j) ?t
                       (if j = 0 then fst prms else snd prms)))
                else senders eng ! j)"
    using senders_loop_senders [OF l] assms(2) g by simp
  with e f assms(2) show ?thesis by simp
qed

lemma run_step_thrown:
  assumes "run_step n Rs prms step eng = Some (Some e, eng')"
  shows "rtt eng' = rtt eng \<and> trajectory eng' = trajectory eng"
proof -
  let ?eng = "eng\<lparr>currentStep := step\<rparr>"
  let ?t = "jadd (rate (senders eng ! 0)) (rate (senders eng ! 1))"
  from assms obtain errs where
    l: "senders_loop n Rs prms step ?t 0 ?eng [] = Some (Some e, eng', errs)"
    by (auto simp: run_step_def Let_def getRate_def split: option.splits)
  from senders_loop_frame [OF l] show ?thesis by simp
qed

lemma gated_snoc:
  assumes "gated eng tr" "tr \<noteq> []"
    and "pstep pt = length tr"
    and "\<not> gate eng (length tr) 0 \<longrightarrow> px pt = px (last tr)"
    and "\<not> gate eng (length tr) 1 \<longrightarrow> py pt = py (last tr)"
  shows "gated eng (tr @ [pt])"
  unfolding gated_def
proof (intro allI impI)
  fix k assume k: "1 \<le> k \<and> k < length (tr @ [pt])"
  show "pstep ((tr @ [pt]) ! k) = k
        \<and> (\<not> gate eng k 0 \<longrightarrow> px ((tr @ [pt]) ! k) = px ((tr @ [pt]) ! (k - 1)))
        \<and> (\<not> gate eng k 1 \<longrightarrow> py ((tr @ [pt]) ! k) = py ((tr @ [pt]) ! (k - 1)))"
  proof (cases "k < length tr")
    case True
    with k assms(1) have "pstep (tr ! k) = k
        \<and> (\<not> gate eng k 0 \<longrightarrow> px (tr ! k) = px (tr ! (k - 1)))
        \<and> (\<not> gate eng k 1 \<longrightarrow> py (tr ! k) = py (tr ! (k - 1)))"
      unfolding gated_def by blast
    moreover from True have "k - 1 < length tr" by simp
    with True have "(tr @ [pt]) ! k = tr ! k" "(tr @ [pt]) ! (k - 1) = tr ! (k - 1)"
      by (simp_all only: nth_append if_True)
    ultimately show ?thesis by simp
  next
    case False
    with k have kl: "k = length tr" by simp
    with assms(2) have "(tr @ [pt]) ! (k - 1) = last tr"
      by (simp add: nth_append last_conv_nth)
    with kl assms(3,4,5) show ?thesis by simp
  qed
qed

lemma run_loop_trajectory:
  assumes "run_loop n R stop prms d step eng = Some (exn, eng')"
    and "length (senders eng) = 2"
    and "length (trajectory eng) = step" and "1 \<le> step"
    and "px (last (trajectory eng)) = rate (senders eng ! 0)"
    and "py (last (trajectory eng)) = rate (senders eng ! 1)"
    and "gated eng (trajectory eng)"
  shows "rtt eng' = rtt eng \<and> gated eng (trajectory eng')
         \<and> (exn = None \<and> (\<forall>k. \<not> stop k) \<and> isRunning eng \<and> step \<le> d + 1
              \<longrightarrow> length (trajectory eng') = d + 1)"
  using assms
proof (induction n R stop prms d step eng rule: run_loop.induct)
  case (1 n R stop prms d step eng)
  show ?case
  proof (cases "step \<le> d \<and> isRunning eng")
    case False
    with 1(2) have "eng' = eng\<lparr>isRunning := False\<rparr>" "exn = None"
      by (simp_all add: run_loop.simps)
    with False 1(4,8) show ?thesis by auto
  next
    case True
    from True 1(2) obtain x eng1 where s: "run_step n (R step) prms step eng = Some (x, eng1)"
      by (subst (asm) run_loop.simps) (auto split: option.splits)
    show ?thesis
    proof (cases x)
      case (Some e)
      with True s 1(2) have "eng' = eng1" "exn = Some e"
        by (simp_all add: run_loop.simps)
      with run_step_thrown [of n "R step" prms step eng e eng1] s Some 1(8) show ?thesis
        by simp
    next
      case None
      let ?eng2 = "if stop step then eng1\<lparr>isRunning := False\<rparr> else eng1"
      from True s None 1(2)
      have l: "run_loop n R stop prms d (step + 1) ?eng2 = Some (exn, eng')"
        by (subst (asm) run_loop.simps) simp
      from run_step_normal [OF s [unfolded None] 1(3)] obtain dt where
        f: "rtt eng1 = rtt eng" "isRunning eng1 = isRunning eng" "length (senders eng1) = 2"
        and tr: "trajectory eng1 = trajectory eng
               @ [Point step (rate (senders eng1 ! 0)) (rate (senders eng1 ! 1)) dt]"
        and sd: "\<forall>j < 2. senders eng1 ! j =
               (if gate eng step j
                then snd (the (calculate n (R step j) (senders eng ! j)
                       (jadd (rate (senders eng ! 0)) (rate (senders eng ! 1)))
                       (if j = 0 then fst prms else snd prms)))
                else senders eng ! j)"
        by blast
      from 1(4,5) have ne: "trajectory eng \<noteq> []" by auto
      have g1: "gated eng (trajectory eng1)"
        unfolding tr
        by (rule gated_snoc [OF 1(8) ne]) (use sd 1(4,6,7) in auto)
      have ge: "gated ?eng2 tr = gated eng tr" for tr
        using f(1) by (simp add: gated_def gate_def)
      have a2: "length (senders ?eng2) = 2" using f(3) by simp
      have a3: "length (trajectory ?eng2) = step + 1" using tr 1(4) by simp
      have a5: "px (last (trajectory ?eng2)) = rate (senders ?eng2 ! 0)"
        "py (last (trajectory ?eng2)) = rate (senders ?eng2 ! 1)"
        using tr by simp_all
      have a7: "gated ?eng2 (trajectory ?eng2)" using g1 ge by simp
      from 1(1) [OF True s refl None l a2 a3 _ a5 a7] f ge True
      show ?thesis by auto
    qed
  qed
qed


lemma gate_mod:
  "rtt eng = [r0, r1] \<Longrightarrow> 1 \<le> r0 \<Longrightarrow> 1 \<le> r1 \<Longrightarrow>
     gate eng k 0 = (k mod r0 = 0) \<and> gate eng k 1 = (k mod r1 = 0)"
  by (simp add: gate_def)

text \<open>
  Claim C6. In a run with the round trip times \<open>r0\<close> and \<open>r1\<close> (both at least 1),
  every record of the trajectory but the first carries its step, and the rate of a
  sender in the record of a step that its round trip time does not divide is its rate in
  the record before. A run that no call throws out of and nobody stops has a record for
  every step up to the duration. In every step of the loop that ends normally a sender is
  what \<open>calculate\<close> with the traffic of the rates before the step made of it when its
  round trip time divides the step, and is unchanged otherwise.
\<close>

theorem rtt_gating:
  assumes "run n R stop eng0 prms = Some (exn, eng')"
    and "\<not> isRunning eng0" and "length (senders eng0) = 2"
    and "rtt eng0 = [r0, r1]" and "1 \<le> r0" and "1 \<le> r1"
  shows "(\<forall>k. 1 \<le> k \<and> k < length (trajectory eng') \<longrightarrow>
            pstep (trajectory eng' ! k) = k
            \<and> (k mod r0 \<noteq> 0 \<longrightarrow> px (trajectory eng' ! k) = px (trajectory eng' ! (k - 1)))
            \<and> (k mod r1 \<noteq> 0 \<longrightarrow> py (trajectory eng' ! k) = py (trajectory eng' ! (k - 1))))
         \<and> (exn = None \<and> (\<forall>k. \<not> stop k) \<longrightarrow> length (trajectory eng') = duration eng0 + 1)
         \<and> (\<forall>Rs step eng eng1.
               run_step n Rs prms step eng = Some (None, eng1) \<and> length (senders eng) = 2
                 \<and> rtt eng = [r0, r1] \<longrightarrow>
               senders eng1 ! 0 =
                 (if step mod r0 = 0
                  then snd (the (calculate n (Rs 0) (senders eng ! 0)
                         (jadd (rate (senders eng ! 0)) (rate (senders eng ! 1))) (fst prms)))
                  else senders eng ! 0)
               \<and> senders eng1 ! 1 =
                 (if step mod r1 = 0
                  then snd (the (calculate n (Rs 1) (senders eng ! 1)
                         (jadd (rate (senders eng ! 0)) (rate (senders eng ! 1))) (snd prms)))
                  else senders eng ! 1))"
proof (intro conjI)
  let ?eng = "eng0\<lparr>isRunning := True, currentStep := 0, trajectory := [],
                       senders := map Sender_resetStaticVars (senders eng0)\<rparr>"
  let ?start = "?eng\<lparr>trajectory := trajectory ?eng
      @ [Point 0 (getRate (senders ?eng ! 0)) (getRate (senders ?eng ! 1)) None]\<rparr>"
  from assms(1,2) have l: "run_loop n R stop prms (duration eng0) 1 ?start = Some (exn, eng')"
    by (simp add: run_def Let_def)
  have g0: "gated ?start (trajectory ?start)" by (simp add: gated_def)
  from run_loop_trajectory [OF l] assms(3) g0
  have r: "gated ?start (trajectory eng')"
    and len: "exn = None \<and> (\<forall>k. \<not> stop k) \<longrightarrow> length (trajectory eng') = duration eng0 + 1"
    by (simp_all add: getRate_def)
  have gm: "gate ?start k 0 = (k mod r0 = 0) \<and> gate ?start k 1 = (k mod r1 = 0)" for k
    using gate_mod [of ?start r0 r1 k] assms(4,5,6) by simp
  show "\<forall>k. 1 \<le> k \<and> k < length (trajectory eng') \<longrightarrow>
            pstep (trajectory eng' ! k) = k
            \<and> (k mod r0 \<noteq> 0 \<longrightarrow> px (trajectory eng' ! k) = px (trajectory eng' ! (k - 1)))
            \<and> (k mod r1 \<noteq> 0 \<longrightarrow> py (trajectory eng' ! k) = py (trajectory eng' ! (k - 1)))"
  proof (intro allI impI)
    fix k assume k: "1 \<le> k \<and> k < length (trajectory eng')"
    with r have "pstep (trajectory eng' ! k) = k
        \<and> (\<not> gate ?start k 0 \<longrightarrow> px (trajectory eng' ! k) = px (trajectory eng' ! (k - 1)))
        \<and> (\<not> gate ?start k 1 \<longrightarrow> py (trajectory eng' ! k) = py (trajectory eng' ! (k - 1)))"
      unfolding gated_def by blast
    then show "pstep (trajectory eng' ! k) = k
            \<and> (k mod r0 \<noteq> 0 \<longrightarrow> px (trajectory eng' ! k) = px (trajectory eng' ! (k - 1)))
            \<and> (k mod r1 \<noteq> 0 \<longrightarrow> py (trajectory eng' ! k) = py (trajectory eng' ! (k - 1)))"
      using gm [of k] by simp
  qed
  from len show "exn = None \<and> (\<forall>k. \<not> stop k) \<longrightarrow> length (trajectory eng') = duration eng0 + 1" .
  show "\<forall>Rs step eng eng1.
               run_step n Rs prms step eng = Some (None, eng1) \<and> length (senders eng) = 2
                 \<and> rtt eng = [r0, r1] \<longrightarrow>
               senders eng1 ! 0 =
                 (if step mod r0 = 0
                  then snd (the (calculate n (Rs 0) (senders eng ! 0)
                         (jadd (rate (senders eng ! 0)) (rate (senders eng ! 1))) (fst prms)))
                  else senders eng ! 0)
               \<and> senders eng1 ! 1 =
                 (if step mod r1 = 0
                  then snd (the (calculate n (Rs 1) (senders eng ! 1)
                         (jadd (rate (senders eng ! 0)) (rate (senders eng ! 1))) (snd prms)))
                  else senders eng ! 1)"
  proof (intro allI impI)
    fix Rs step eng eng1
    assume a: "run_step n Rs prms step eng = Some (None, eng1) \<and> length (senders eng) = 2
                 \<and> rtt eng = [r0, r1]"
    from run_step_normal [of n Rs prms step eng eng1] a
    have s: "\<forall>j < 2. senders eng1 ! j =
               (if gate eng step j
                then snd (the (calculate n (Rs j) (senders eng ! j)
                       (jadd (rate (senders eng ! 0)) (rate (senders eng ! 1)))
                       (if j = 0 then fst prms else snd prms)))
                else senders eng ! j)"
      by blast
    from a gate_mod [of eng r0 r1 step] assms(5,6)
    have g: "gate eng step 0 = (step mod r0 = 0)" "gate eng step 1 = (step mod r1 = 0)"
      by simp_all
    have "(0::nat) < 2" "(1::nat) < 2" by simp_all
    with s have "senders eng1 ! 0 = (if gate eng step 0
                then snd (the (calculate n (Rs 0) (senders eng ! 0)
                       (jadd (rate (senders eng ! 0)) (rate (senders eng ! 1)))
                       (if (0::nat) = 0 then fst prms else snd prms)))
                else senders eng ! 0)"
      and "senders eng1 ! 1 = (if gate eng step 1
                then snd (the (calculate n (Rs 1) (senders eng ! 1)
                       (jadd (rate (senders eng ! 0)) (rate (senders eng ! 1)))
                       (if (1::nat) = 0 then fst prms else snd prms)))
                else senders eng ! 1)"
      by blast+
    then
    show "senders eng1 ! 0 =
                 (if step mod r0 = 0
                  then snd (the (calculate n (Rs 0) (senders eng ! 0)
                         (jadd (rate (senders eng ! 0)) (rate (senders eng ! 1))) (fst prms)))
                  else senders eng ! 0)
               \<and> senders eng1 ! 1 =
                 (if step mod r1 = 0
                  then snd (the (calculate n (Rs 1) (senders eng ! 1)
                         (jadd (rate (senders eng ! 0)) (rate (senders eng ! 1))) (snd prms)))
                  else senders eng ! 1)"
      using g by simp
  qed
qed


text \<open>The run of the example engine, step by step.\<close>

lemma gating_run:
  "\<exists>eng'. run 30 (\<lambda>_ _ _. 0) (\<lambda>_. False) gating_engine ([], []) = Some (None, eng')
     \<and> map (\<lambda>pt. (pstep pt, px pt, py pt)) (trajectory eng')
         = [(0, Fin (1 / 10), Fin (2 / 10)), (1, Fin (2 / 10), Fin (2 / 10)),
            (2, Fin (3 / 10), Fin (3 / 10)), (3, Fin (4 / 10), Fin (3 / 10)),
            (4, Fin (5 / 10), Fin (4 / 10))]"
  by (simp add: engine_simps top_simps tok_simps rx_simps parse_simps)


text \<open>
  With the round trip times 1 and 2 and four steps the trajectory has five records, and
  the rate of the second sender at the steps 1 and 3 is its rate at the steps 0 and 2.
\<close>

theorem rtt_gating_witness:
  "\<exists>eng'. run 30 (\<lambda>_ _ _. 0) (\<lambda>_. False) gating_engine ([], []) = Some (None, eng')
     \<and> \<not> isRunning gating_engine \<and> length (senders gating_engine) = 2
     \<and> rtt gating_engine = [1, 2] \<and> duration gating_engine = 4
     \<and> map (\<lambda>pt. (pstep pt, px pt, py pt)) (trajectory eng')
         = [(0, Fin (1 / 10), Fin (2 / 10)), (1, Fin (2 / 10), Fin (2 / 10)),
            (2, Fin (3 / 10), Fin (3 / 10)), (3, Fin (4 / 10), Fin (3 / 10)),
            (4, Fin (5 / 10), Fin (4 / 10))]
     \<and> length (trajectory eng') = 5
     \<and> py (trajectory eng' ! 1) = py (trajectory eng' ! 0)
     \<and> py (trajectory eng' ! 3) = py (trajectory eng' ! 2)"
proof -
  from gating_run obtain eng' where
    rm: "run 30 (\<lambda>_ _ _. 0) (\<lambda>_. False) gating_engine ([], []) = Some (None, eng')
     \<and> map (\<lambda>pt. (pstep pt, px pt, py pt)) (trajectory eng')
         = [(0, Fin (1 / 10), Fin (2 / 10)), (1, Fin (2 / 10), Fin (2 / 10)),
            (2, Fin (3 / 10), Fin (3 / 10)), (3, Fin (4 / 10), Fin (3 / 10)),
            (4, Fin (5 / 10), Fin (4 / 10))]" ..
  note r = rm [THEN conjunct1] and m = rm [THEN conjunct2]
  have p: "\<not> isRunning gating_engine" "length (senders gating_engine) = 2"
    "rtt gating_engine = [1, 2]" "duration gating_engine = 4"
    by (simp_all add: gating_engine_def setStartPosition_def setRTT_def setDuration_def
        at_least_one_def engine_setScript_def new_SimulationEngine_def)
  have o: "(1::nat) \<le> 1" "(1::nat) \<le> 2" by simp_all
  note g = rtt_gating [OF r p(1) p(2) p(3) o]
  note g1 = g [THEN conjunct1, rule_format] and g2 = g [THEN conjunct2, THEN conjunct1, rule_format]
  from g2 p(4) have len: "length (trajectory eng') = 5" by simp
  from g1 [of 1] len have h1: "py (trajectory eng' ! 1) = py (trajectory eng' ! 0)" by simp
  from g1 [of 3] len have h3: "py (trajectory eng' ! 3) = py (trajectory eng' ! 2)" by simp
  show ?thesis
    by (rule exI [of _ eng']) (intro conjI r m p len h1 h3)
qed

end
